theory Spec2Isabelle
  imports Main "HOL-Library.AList"
begin

section \<open>JavaScript values, objects and the structured logger\<close>

text \<open>
  The request-handling layer passes untyped JavaScript objects around (\<open>where: any\<close>,
  \<open>params.args\<close>). A value is one of the JavaScript primitives, a date (milliseconds
  since the epoch) or an object; an object is its list of own properties in insertion
  order, with pairwise distinct keys.
\<close>

datatype jsval =
    JUndefined
  | JNull
  | JBool bool
  | JNum int
  | JStr string
  | JDate int
  | JArr "jsval list"
  | JObj "(string \<times> jsval) list"

type_synonym obj = "(string \<times> jsval) list"

text \<open>\<open>o.k\<close>: reading a property that is not there gives \<open>undefined\<close>.\<close>

definition getProp :: "obj \<Rightarrow> string \<Rightarrow> jsval" where
  "getProp ob k = (case map_of ob k of None \<Rightarrow> JUndefined | Some v \<Rightarrow> v)"

text \<open>\<open>o.k = v\<close>: an existing property keeps its place, a new one goes last.\<close>

definition setProp :: "obj \<Rightarrow> string \<Rightarrow> jsval \<Rightarrow> obj" where
  "setProp ob k v = AList.update k v ob"

text \<open>\<open>{ ...base, ...extra }\<close>: the properties of \<open>extra\<close> are assigned in order.\<close>

definition spread :: "obj \<Rightarrow> obj \<Rightarrow> obj" where
  "spread base extra = foldl (\<lambda>acc kv. setProp acc (fst kv) (snd kv)) base extra"

text \<open>\<open>x || ''\<close> on an optional string: \<open>undefined\<close> and the empty string are falsy.\<close>

definition orEmpty :: "string option \<Rightarrow> string" where
  "orEmpty s = (case s of None \<Rightarrow> [] | Some x \<Rightarrow> x)"

definition optVal :: "obj option \<Rightarrow> jsval" where
  "optVal w = (case w of None \<Rightarrow> JUndefined | Some ob \<Rightarrow> JObj ob)"

definition optStr :: "string option \<Rightarrow> jsval" where
  "optStr s = (case s of None \<Rightarrow> JUndefined | Some x \<Rightarrow> JStr x)"

datatype level = LInfo | LWarn | LError | LSecurity

text \<open>A log entry: the level (\<open>logInfo\<close>, \<open>logWarn\<close>, \<open>logError\<close>, \<open>logSecurity\<close>),
  the message and the context object.\<close>

type_synonym log_entry = "level \<times> string \<times> obj"

section \<open>Soft-delete interceptor (\<open>src/lib/soft-delete.ts\<close>)\<close>

definition SOFT_DELETE_MODELS :: "string list" where
  "SOFT_DELETE_MODELS =
     [''User'', ''Customer'', ''Farmer'', ''Product'', ''Order'', ''OrderItem'',
      ''Address'', ''ProductReview'', ''Subscription'']"

definition supportsSoftDelete :: "string \<Rightarrow> bool" where
  "supportsSoftDelete modelName = (modelName \<in> set SOFT_DELETE_MODELS)"

text \<open>The ORM's operation kinds (\<open>params.action\<close>).\<close>

datatype action =
    FindUnique | FindUniqueOrThrow | FindFirst | FindFirstOrThrow | FindMany
  | Create | CreateMany | Update | UpdateMany | Upsert
  | Delete | DeleteMany | ExecuteRaw | QueryRaw | Aggregate | Count | GroupBy

text \<open>
  \<open>params.args\<close> is the argument object of the operation. Only its \<open>where\<close> and
  \<open>data\<close> properties are read or written by the interceptor; \<open>None\<close> is
  \<open>undefined\<close>. The ORM's type of \<open>where\<close> is an object, so the truthiness test
  \<open>if (params.args.where)\<close> is the test for presence.
\<close>

record args =
  args_where :: "obj option"
  args_data :: "obj option"

record params =
  model :: "string option"
  action :: action
  args :: args

text \<open>
  First middleware: a delete becomes an update that stamps \<open>deletedAt\<close>. The two
  \<open>if\<close>s run in sequence on the mutated \<open>params\<close>, as in the source; \<open>now\<close> is
  the value of \<open>new Date()\<close>. The result is the log and the \<open>params\<close> handed to
  \<open>next\<close>.
\<close>

definition deleteMiddleware :: "int \<Rightarrow> params \<Rightarrow> log_entry list \<times> params" where
  "deleteMiddleware now p =
     (if \<not> supportsSoftDelete (orEmpty (model p)) then ([], p)
      else
        let (l1, p1) =
              (if action p = Delete
               then ([(LInfo, ''Soft delete: Converting delete to update'',
                       [(''model'', optStr (model p)),
                        (''where'', optVal (args_where (args p)))])],
                     p\<lparr>action := Update,
                       args := (args p)\<lparr>args_data := Some [(''deletedAt'', JDate now)]\<rparr>\<rparr>)
               else ([], p));
            (l2, p2) =
              (if action p1 = DeleteMany
               then ([(LInfo, ''Soft delete: Converting deleteMany to updateMany'',
                       [(''model'', optStr (model p1)),
                        (''where'', optVal (args_where (args p1)))])],
                     p1\<lparr>action := UpdateMany,
                        args := (args p1)\<lparr>args_data := Some [(''deletedAt'', JDate now)]\<rparr>\<rparr>)
               else ([], p1))
        in (l1 @ l2, p2))"

text \<open>\<open>{ ...where, deletedAt: null }\<close>: spreading \<open>undefined\<close> adds nothing.\<close>

definition spreadDeletedAtNull :: "obj option \<Rightarrow> obj" where
  "spreadDeletedAtNull w =
     (case w of None \<Rightarrow> [(''deletedAt'', JNull)]
      | Some ob \<Rightarrow> setProp ob ''deletedAt'' JNull)"

text \<open>The branch shared, textually, by \<open>findMany\<close>, \<open>count\<close> and \<open>aggregate\<close>.\<close>

definition defaultDeletedAt :: "obj option \<Rightarrow> obj" where
  "defaultDeletedAt w =
     (case w of
        Some ob \<Rightarrow>
          (if getProp ob ''deletedAt'' = JUndefined then setProp ob ''deletedAt'' JNull
           else ob)
      | None \<Rightarrow> [(''deletedAt'', JNull)])"

definition setWhere :: "params \<Rightarrow> obj \<Rightarrow> params" where
  "setWhere p w = p\<lparr>args := (args p)\<lparr>args_where := Some w\<rparr>\<rparr>"

text \<open>Second middleware: the read filter.\<close>

definition readMiddleware :: "params \<Rightarrow> params" where
  "readMiddleware p =
     (if \<not> supportsSoftDelete (orEmpty (model p)) then p
      else
        let p1 = (if action p = FindUnique \<or> action p = FindFirst
                  then setWhere p (spreadDeletedAtNull (args_where (args p))) else p);
            p2 = (if action p1 = FindMany
                  then setWhere p1 (defaultDeletedAt (args_where (args p1))) else p1);
            p3 = (if action p2 = Count
                  then setWhere p2 (defaultDeletedAt (args_where (args p2))) else p2);
            p4 = (if action p3 = Aggregate
                  then setWhere p3 (defaultDeletedAt (args_where (args p3))) else p3)
        in p4)"

text \<open>
  \<open>setupSoftDeleteMiddleware\<close> registers the two middlewares in this order, so the
  data-access handle \<open>next\<close> receives what the second makes of the output of the first.
\<close>

definition softDeleteInterceptor ::
  "int \<Rightarrow> (params \<Rightarrow> 'r) \<Rightarrow> params \<Rightarrow> log_entry list \<times> 'r" where
  "softDeleteInterceptor now next p =
     (let (l, p1) = deleteMiddleware now p in (l, next (readMiddleware p1)))"

text \<open>The caller supplied a \<open>deletedAt\<close> condition: the property is there and is not
  \<open>undefined\<close>.\<close>

definition hasDeletedAt :: "obj option \<Rightarrow> bool" where
  "hasDeletedAt w = (case w of None \<Rightarrow> False | Some ob \<Rightarrow> getProp ob ''deletedAt'' \<noteq> JUndefined)"

subsection \<open>Hard delete\<close>

text \<open>\<open>String.prototype.toLowerCase\<close> on the ASCII letters.\<close>

definition lowerChar :: "char \<Rightarrow> char" where
  "lowerChar c =
     (let n = (of_char c :: nat) in if 65 \<le> n \<and> n \<le> 90 then char_of (n + 32) else c)"

definition toLowerCase :: "string \<Rightarrow> string" where
  "toLowerCase s = map lowerChar s"

text \<open>Decimal rendering of a natural number, as a template literal does.\<close>

fun showNat :: "nat \<Rightarrow> string" where
  "showNat n =
     (if n < 10 then [char_of (48 + n)]
      else showNat (n div 10) @ [char_of (48 + n mod 10)])"

text \<open>Decimal rendering of an integer (\<open>Number.prototype.toString\<close>).\<close>

definition showInt :: "int \<Rightarrow> string" where
  "showInt i = (if i < 0 then ''-'' @ showNat (nat (- i)) else showNat (nat i))"

text \<open>\<open>Array.prototype.join\<close>.\<close>

fun join :: "string \<Rightarrow> string list \<Rightarrow> string" where
  "join sep [] = []"
| "join sep [x] = x"
| "join sep (x # y # ys) = x @ sep @ join sep (y # ys)"

definition dq :: string where
  "dq = [CHR 0x22]"

text \<open>
  \<open>Prisma.sql(strings, ...values)\<close> builds the parameterised statement that
  \<open>$executeRaw\<close> takes: the ORM's template-tag constructor throws a \<open>TypeError\<close> unless
  there is exactly one string more than there are values.
\<close>

definition prismaSql :: "string list \<Rightarrow> jsval list \<Rightarrow> string + (string list \<times> jsval list)" where
  "prismaSql strings vals =
     (if length strings = length vals + 1 then Inr (strings, vals)
      else if length strings = 0 then Inl ''Expected at least 1 string''
      else Inl (''Expected '' @ showNat (length strings) @ '' strings to have ''
                @ showNat (length strings - 1) @ '' values''))"

text \<open>
  The data-access handle as \<open>hardDelete\<close> uses it: \<open>delegate n\<close> says whether
  \<open>prisma[n]\<close> is there; \<open>executeRaw\<close> runs a parameterised statement on the database
  and returns the error message of a failed statement or the number of rows affected.
\<close>

record 'db prisma =
  delegate :: "string \<Rightarrow> bool"
  executeRaw :: "string list \<Rightarrow> jsval list \<Rightarrow> 'db \<Rightarrow> (string + nat) \<times> 'db"

text \<open>What a call of \<open>hardDelete\<close> did: the boolean it resolved to, what it logged, the
  statements it issued to the database, and the database afterwards.\<close>

record 'db hard_delete_result =
  hd_ok :: bool
  hd_logs :: "log_entry list"
  hd_issued :: "(string list \<times> jsval list) list"
  hd_db :: 'db

definition hardDeleteFailed :: "string \<Rightarrow> obj \<Rightarrow> string \<Rightarrow> log_entry" where
  "hardDeleteFailed m wh msg =
     (LWarn, ''Hard delete failed'',
      [(''model'', JStr m), (''where'', JObj wh), (''error'', JStr msg)])"

text \<open>
  \<open>hardDelete\<close>. The statement text is handed to \<open>Prisma.sql\<close> as its only string,
  together with all the values of the filter, so for a filter that is not empty
  \<open>Prisma.sql\<close> throws and \<open>$executeRaw\<close> is not reached.
\<close>

definition hardDelete ::
  "'db prisma \<Rightarrow> string \<Rightarrow> obj \<Rightarrow> obj option \<Rightarrow> 'db \<Rightarrow> 'db hard_delete_result" where
  "hardDelete pr m wh ctx db =
     (let l0 = (LWarn, ''Hard delete operation'',
                spread [(''model'', JStr m), (''where'', JObj wh)]
                  (case ctx of None \<Rightarrow> [] | Some c \<Rightarrow> c))
      in
        if \<not> delegate pr (toLowerCase m)
        then \<lparr>hd_ok = False,
              hd_logs = [l0, hardDeleteFailed m wh (''Model '' @ m @ '' not found'')],
              hd_issued = [], hd_db = db\<rparr>
        else
          let tableName = toLowerCase m;
              whereKeys = map fst wh;
              whereValues = map snd wh
          in
            if length whereKeys = 0
            then \<lparr>hd_ok = False,
                  hd_logs = [l0, hardDeleteFailed m wh
                                   ''Where clause cannot be empty for hard delete''],
                  hd_issued = [], hd_db = db\<rparr>
            else
              let whereClause =
                    join '' AND ''
                      (map (\<lambda>(key, index). dq @ key @ dq @ '' = $'' @ showNat (index + 1))
                         (zip whereKeys [0 ..< length whereKeys]));
                  stmt = ''DELETE FROM '' @ dq @ tableName @ dq @ '' WHERE '' @ whereClause
              in
                (case prismaSql [stmt] whereValues of
                   Inl msg \<Rightarrow>
                     \<lparr>hd_ok = False, hd_logs = [l0, hardDeleteFailed m wh msg],
                      hd_issued = [], hd_db = db\<rparr>
                 | Inr (strings, vals) \<Rightarrow>
                     (case executeRaw pr strings vals db of
                        (Inl msg, db') \<Rightarrow>
                          \<lparr>hd_ok = False, hd_logs = [l0, hardDeleteFailed m wh msg],
                           hd_issued = [(strings, vals)], hd_db = db'\<rparr>
                      | (Inr n, db') \<Rightarrow>
                          \<lparr>hd_ok = True, hd_logs = [l0],
                           hd_issued = [(strings, vals)], hd_db = db'\<rparr>)))"

section \<open>HTTP requests and responses\<close>

text \<open>A header or query value is a string or an array of strings; \<open>None\<close> in the
  maps below is \<open>undefined\<close>.\<close>

datatype hval = HStr string | HArr "string list"

record request =
  headers :: "string \<rightharpoonup> hval"
  query :: "string \<rightharpoonup> hval"
  url :: "string option"
  httpMethod :: "string option"
  remoteAddress :: "string option"

record response =
  status :: nat
  body :: obj

text \<open>Truthiness: \<open>undefined\<close> and the empty string are falsy, every array is truthy.\<close>

definition truthy :: "hval option \<Rightarrow> bool" where
  "truthy h = (case h of None \<Rightarrow> False | Some (HStr s) \<Rightarrow> s \<noteq> [] | Some (HArr xs) \<Rightarrow> True)"

text \<open>\<open>a || b\<close>.\<close>

definition orElse :: "hval option \<Rightarrow> hval option \<Rightarrow> hval option" where
  "orElse a b = (if truthy a then a else b)"

text \<open>Conversion to a string, as a template literal or a property key does it.\<close>

definition hvalString :: "hval \<Rightarrow> string" where
  "hvalString h = (case h of HStr s \<Rightarrow> s | HArr xs \<Rightarrow> join '','' xs)"

definition hvalJs :: "hval option \<Rightarrow> jsval" where
  "hvalJs h = (case h of None \<Rightarrow> JUndefined | Some (HStr s) \<Rightarrow> JStr s
               | Some (HArr xs) \<Rightarrow> JArr (map JStr xs))"

text \<open>What a middleware did with the request: it called \<open>next()\<close> (whose result is
  kept) or it answered itself.\<close>

datatype 'a handled = Proceed 'a | Replied response

section \<open>API version router (\<open>src/lib/api-versioning.ts\<close>)\<close>

definition CURRENT_VERSION :: string where
  "CURRENT_VERSION = ''v1''"

definition SUPPORTED_VERSIONS :: "string list" where
  "SUPPORTED_VERSIONS = [''v1'']"

text \<open>\<open>SUPPORTED_VERSIONS.includes(version)\<close> compares with \<open>===\<close>: an array is never a
  member. (The casts \<open>as string\<close>, \<open>as ApiVersion\<close> do nothing at run time.)\<close>

definition isSupportedVersion :: "hval \<Rightarrow> bool" where
  "isSupportedVersion version =
     (case version of HStr s \<Rightarrow> s \<in> set SUPPORTED_VERSIONS | HArr xs \<Rightarrow> False)"

definition isDigit :: "char \<Rightarrow> bool" where
  "isDigit c = (c \<in> set ''0123456789'')"

text \<open>The regular expression \<open>/\/api\/(v\d+)\//\<close> at the head of a string: the greedy
  digit run has to be non-empty and followed by a slash; the capture is \<open>v\<close> and the
  digits.\<close>

definition matchVersionHere :: "string \<Rightarrow> string option" where
  "matchVersionHere s =
     (if take 6 s = ''/api/v''
      then let ds = takeWhile isDigit (drop 6 s);
               rest = dropWhile isDigit (drop 6 s)
           in if ds \<noteq> [] \<and> take 1 rest = ''/'' then Some (''v'' @ ds) else None
      else None)"

text \<open>\<open>path.match(...)\<close>: the leftmost match; \<open>None\<close> is \<open>null\<close>.\<close>

fun pathMatch :: "string \<Rightarrow> string option" where
  "pathMatch [] = None"
| "pathMatch (c # cs) =
     (case matchVersionHere (c # cs) of Some v \<Rightarrow> Some v | None \<Rightarrow> pathMatch cs)"

definition getApiVersion :: "request \<Rightarrow> hval" where
  "getApiVersion req =
     (let headerVersion = orElse (headers req ''x-api-version'') (headers req ''accept-version'')
      in if truthy headerVersion \<and> isSupportedVersion (the headerVersion)
         then the headerVersion
         else
           let queryVersion = query req ''version''
           in if truthy queryVersion \<and> isSupportedVersion (the queryVersion)
              then the queryVersion
              else
                let path = orEmpty (url req)
                in (case pathMatch path of
                      Some v \<Rightarrow> if isSupportedVersion (HStr v) then HStr v
                                else HStr CURRENT_VERSION
                    | None \<Rightarrow> HStr CURRENT_VERSION))"

text \<open>
  \<open>versionedHandler(handlers)\<close>. \<open>handlers\<close> maps a version name to the endpoint's
  handler for it, and \<open>handlerKeys\<close> is \<open>Object.keys(handlers)\<close>. The result is the
  log together with either the rejection the dispatcher sent itself, or the three version
  headers it set and the result of the handler it called (the \<open>try\<close> around the call
  rethrows, so the handler's result is passed on as it is).
\<close>

datatype 'a dispatched =
    Rejected response
  | Served "(string \<times> string) list" 'a

definition versionedHandler ::
  "(string \<rightharpoonup> (request \<Rightarrow> 'a)) \<Rightarrow> string list \<Rightarrow> request \<Rightarrow> log_entry list \<times> 'a dispatched" where
  "versionedHandler handlers handlerKeys req =
     (let version = getApiVersion req
      in if \<not> isSupportedVersion version
         then ([(LWarn, ''Unsupported API version requested'',
                 [(''requestedVersion'', hvalJs (Some version)),
                  (''supportedVersions'', JArr (map JStr SUPPORTED_VERSIONS)),
                  (''path'', optStr (url req))])],
               Rejected \<lparr>status = 400,
                 body = [(''error'', JStr ''Unsupported API Version''),
                         (''message'', JStr (''API version '' @ [CHR 0x27] @ hvalString version
                                             @ [CHR 0x27] @ '' is not supported'')),
                         (''supportedVersions'', JArr (map JStr SUPPORTED_VERSIONS)),
                         (''currentVersion'', JStr CURRENT_VERSION)]\<rparr>)
         else (case handlers (hvalString version) of
                 None \<Rightarrow>
                   ([(LWarn, ''No handler for API version'',
                      [(''version'', hvalJs (Some version)),
                       (''path'', optStr (url req)),
                       (''availableVersions'', JArr (map JStr handlerKeys))])],
                    Rejected \<lparr>status = 501,
                      body = [(''error'', JStr ''Version Not Implemented''),
                              (''message'', JStr (''This endpoint does not support version ''
                                                  @ [CHR 0x27] @ hvalString version @ [CHR 0x27])),
                              (''supportedVersions'', JArr (map JStr handlerKeys))]\<rparr>)
               | Some handler \<Rightarrow>
                   ([], Served [(''X-API-Version'', hvalString version),
                                (''X-API-Current-Version'', CURRENT_VERSION),
                                (''X-API-Supported-Versions'', join '', '' SUPPORTED_VERSIONS)]
                          (handler req))))"

section \<open>CSRF guard (\<open>lib/csrf.ts\<close>, in \<open>src/FINAL-CLEAN-SUMMARY.md\<close>)\<close>

record CSRFConfig =
  skipPaths :: "string list option"
  methods :: "string list option"
  errorMessage :: "string option"

definition DEFAULT_METHODS :: "string list" where
  "DEFAULT_METHODS = [''POST'', ''PUT'', ''DELETE'', ''PATCH'']"

text \<open>\<open>String.prototype.includes\<close>: \<open>sub\<close> occurs in \<open>s\<close> as a contiguous piece.\<close>

fun strIncludes :: "string \<Rightarrow> string \<Rightarrow> bool" where
  "strIncludes [] sub = (sub = [])"
| "strIncludes (c # cs) sub = (take (length sub) (c # cs) = sub \<or> strIncludes cs sub)"

text \<open>\<open>s.split(',')[0]\<close>.\<close>

definition firstOfSplit :: "string \<Rightarrow> string" where
  "firstOfSplit s = takeWhile (\<lambda>c. c \<noteq> CHR '','') s"

text \<open>
  The address expression shared by \<open>getSessionId\<close> and \<open>getClientIp\<close>:
  \<open>forwarded ? (Array.isArray(forwarded) ? forwarded[0] : forwarded.split(',')[0])
     : req.socket.remoteAddress || 'unknown'\<close>. \<open>None\<close> is \<open>undefined\<close> (the first
  element of an empty array).
\<close>

definition forwardedIp :: "request \<Rightarrow> string option" where
  "forwardedIp req =
     (let forwarded = headers req ''x-forwarded-for''
      in if truthy forwarded
         then (case the forwarded of
                 HArr xs \<Rightarrow> (case xs of [] \<Rightarrow> None | x # _ \<Rightarrow> Some x)
               | HStr s \<Rightarrow> Some (firstOfSplit s))
         else (case remoteAddress req of
                 None \<Rightarrow> Some ''unknown''
               | Some a \<Rightarrow> if a = [] then Some ''unknown'' else Some a))"

text \<open>A value inside a template literal.\<close>

definition tmpl :: "string option \<Rightarrow> string" where
  "tmpl s = (case s of None \<Rightarrow> ''undefined'' | Some x \<Rightarrow> x)"

text \<open>\<open>getSessionId\<close>: \<open>sessionUserId\<close> is \<open>session?.user?.id\<close> of the session the
  authentication provider returns for the request.\<close>

definition getSessionId :: "string option \<Rightarrow> request \<Rightarrow> string" where
  "getSessionId sessionUserId req =
     (case sessionUserId of
        Some uid \<Rightarrow> if uid \<noteq> [] then uid else ''ip:'' @ tmpl (forwardedIp req)
      | None \<Rightarrow> ''ip:'' @ tmpl (forwardedIp req))"

text \<open>The \<open>ip\<close> field of a security event:
  \<open>req.headers['x-forwarded-for'] || req.socket.remoteAddress\<close>.\<close>

definition originIp :: "request \<Rightarrow> jsval" where
  "originIp req =
     (if truthy (headers req ''x-forwarded-for'') then hvalJs (headers req ''x-forwarded-for'')
      else optStr (remoteAddress req))"

text \<open>
  \<open>csrfProtection(config)(req, res, next)\<close>. \<open>verifyToken\<close> is
  \<open>CSRFProtection.verifyToken\<close> of \<open>lib/security\<close>, which is not among the sources and
  is a parameter here; \<open>next\<close> is the result of calling \<open>next()\<close>.
\<close>

definition csrfProtection ::
  "CSRFConfig \<Rightarrow> (hval \<Rightarrow> string \<Rightarrow> bool) \<Rightarrow> string option \<Rightarrow> request \<Rightarrow> 'a
     \<Rightarrow> log_entry list \<times> 'a handled" where
  "csrfProtection config verifyToken sessionUserId req next =
     (let skipPaths' = (case skipPaths config of None \<Rightarrow> [] | Some ps \<Rightarrow> ps);
          methods' = (case methods config of None \<Rightarrow> DEFAULT_METHODS | Some ms \<Rightarrow> ms);
          errorMessage' = (case errorMessage config of
                             None \<Rightarrow> ''Invalid or missing CSRF token'' | Some m \<Rightarrow> m)
      in if orEmpty (httpMethod req) \<notin> set methods' then ([], Proceed next)
         else
           let path = orEmpty (url req)
           in if list_ex (\<lambda>skipPath. strIncludes path skipPath) skipPaths' then ([], Proceed next)
              else
                let token = headers req ''x-csrf-token''
                in if \<not> truthy token
                   then ([(LSecurity, ''CSRF token missing'',
                           [(''path'', optStr (url req)),
                            (''method'', optStr (httpMethod req)),
                            (''ip'', originIp req)])],
                         Replied \<lparr>status = 403,
                           body = [(''error'', JStr ''CSRF Validation Failed''),
                                   (''message'', JStr ''CSRF token is required'')]\<rparr>)
                   else
                     let sessionId = getSessionId sessionUserId req;
                         isValid = verifyToken (the token) sessionId
                     in if \<not> isValid
                        then ([(LSecurity, ''CSRF token validation failed'',
                                [(''path'', optStr (url req)),
                                 (''method'', optStr (httpMethod req)),
                                 (''ip'', originIp req),
                                 (''sessionId'', JStr sessionId)])],
                              Replied \<lparr>status = 403,
                                body = [(''error'', JStr ''CSRF Validation Failed''),
                                        (''message'', JStr errorMessage')]\<rparr>)
                        else ([], Proceed next))"

text \<open>\<open>withCSRF(handler, config)\<close>: \<open>next\<close> runs the wrapped handler.\<close>

definition withCSRF ::
  "(request \<Rightarrow> 'a) \<Rightarrow> CSRFConfig \<Rightarrow> (hval \<Rightarrow> string \<Rightarrow> bool) \<Rightarrow> string option \<Rightarrow> request
     \<Rightarrow> log_entry list \<times> 'a handled" where
  "withCSRF handler config verifyToken sessionUserId req =
     csrfProtection config verifyToken sessionUserId req (handler req)"

section \<open>Tiered cache (\<open>lib/redis.ts\<close>, \<open>src/unnamed/part_004\<close>)\<close>

record CacheOptions =
  memoryTTL :: "int option"
  redisTTL :: "int option"
  skipMemory :: "bool option"
  skipRedis :: "bool option"

definition defaultOptions :: CacheOptions where
  "defaultOptions =
     \<lparr>memoryTTL = Some 300, redisTTL = Some 3600, skipMemory = Some False, skipRedis = Some False\<rparr>"

text \<open>\<open>{ ...defaultOptions, ...options }\<close>: a property of \<open>options\<close> wins when it is there.\<close>

definition orDefault :: "'a option \<Rightarrow> 'a option \<Rightarrow> 'a option" where
  "orDefault d x = (case x of None \<Rightarrow> d | Some y \<Rightarrow> Some y)"

definition mergeOptions :: "CacheOptions \<Rightarrow> CacheOptions \<Rightarrow> CacheOptions" where
  "mergeOptions d options =
     \<lparr>memoryTTL = orDefault (memoryTTL d) (memoryTTL options),
      redisTTL = orDefault (redisTTL d) (redisTTL options),
      skipMemory = orDefault (skipMemory d) (skipMemory options),
      skipRedis = orDefault (skipRedis d) (skipRedis options)\<rparr>"

text \<open>\<open>opts.memoryTTL || 300\<close>: \<open>undefined\<close> and \<open>0\<close> are falsy.\<close>

definition ttlOr :: "int option \<Rightarrow> int \<Rightarrow> int" where
  "ttlOr t d = (case t of None \<Rightarrow> d | Some n \<Rightarrow> if n = 0 then d else n)"

definition flag :: "bool option \<Rightarrow> bool" where
  "flag b = (case b of None \<Rightarrow> False | Some x \<Rightarrow> x)"

text \<open>
  The two tiers. The in-process cache maps a key to the cached value and the time (in
  milliseconds) at which it expires, \<open>0\<close> meaning never; the distributed store maps a key to
  the serialised value and its expiry. \<open>redisAvailable\<close> is the value of
  \<open>isRedisAvailable()\<close>. Values of type \<open>'v\<close> are the defined values a caller caches:
  \<open>undefined\<close>, which the lookup reads as a miss, is not one of them.
\<close>

record 'v cache_state =
  memoryCache :: "string \<rightharpoonup> ('v \<times> int)"
  redis :: "string \<rightharpoonup> (string \<times> int)"
  redisAvailable :: bool

text \<open>The interface of the in-process cache: \<open>get\<close> and \<open>set(key, value, ttl)\<close> with
  the time to live in seconds.\<close>

definition nodeGet :: "int \<Rightarrow> string \<Rightarrow> (string \<rightharpoonup> ('v \<times> int)) \<Rightarrow> 'v option" where
  "nodeGet now key m =
     (case m key of None \<Rightarrow> None
      | Some (v, t) \<Rightarrow> if t \<noteq> 0 \<and> t < now then None else Some v)"

definition nodeSet ::
  "int \<Rightarrow> string \<Rightarrow> 'v \<Rightarrow> int \<Rightarrow> (string \<rightharpoonup> ('v \<times> int)) \<Rightarrow> (string \<rightharpoonup> ('v \<times> int))" where
  "nodeSet now key v ttl m = m(key \<mapsto> (v, if ttl = 0 then 0 else now + ttl * 1000))"

text \<open>The interface of the distributed store: \<open>get\<close> (\<open>None\<close> is \<open>null\<close>), \<open>setex\<close>
  and \<open>del\<close>.\<close>

definition redisGet :: "int \<Rightarrow> string \<Rightarrow> (string \<rightharpoonup> (string \<times> int)) \<Rightarrow> string option" where
  "redisGet now key m =
     (case m key of None \<Rightarrow> None | Some (s, t) \<Rightarrow> if t < now then None else Some s)"

definition redisSetex ::
  "int \<Rightarrow> string \<Rightarrow> int \<Rightarrow> string \<Rightarrow> (string \<rightharpoonup> (string \<times> int)) \<Rightarrow> (string \<rightharpoonup> (string \<times> int))" where
  "redisSetex now key ttl s m = m(key \<mapsto> (s, now + ttl * 1000))"

text \<open>
  How the tiers misbehave during one call of the service: whether the in-process cache
  throws on a read, and with which error on a write, a delete or a flush; with which error
  the distributed \<open>get\<close>, \<open>del\<close> or \<open>keys\<close> fails; and whether \<open>setex\<close> throws at
  once or returns a promise that is rejected. Each of these operations runs at most once in
  a call.
\<close>

record faults =
  memoryGetThrows :: bool
  memorySetThrows :: "string option"
  memoryDelThrows :: "string option"
  memoryFlushThrows :: "string option"
  redisGetFails :: "string option"
  redisDelFails :: "string option"
  redisKeysFails :: "string option"
  redisSetexThrows :: "string option"
  redisSetexRejects :: "string option"

text \<open>The call during which both tiers work.\<close>

definition noFaults :: faults where
  "noFaults =
     \<lparr>memoryGetThrows = False, memorySetThrows = None, memoryDelThrows = None,
      memoryFlushThrows = None, redisGetFails = None, redisDelFails = None,
      redisKeysFails = None, redisSetexThrows = None, redisSetexRejects = None\<rparr>"

text \<open>\<open>JSON.stringify\<close> (\<open>Inl\<close> the message of the error it throws) and \<open>JSON.parse\<close>
  (\<open>None\<close> when it throws) at the type of the cached values.\<close>

record 'v codec =
  stringify :: "'v \<Rightarrow> string + string"
  parse :: "string \<Rightarrow> 'v option"

text \<open>Level 1 of \<open>get\<close>: the read of the in-process cache inside its \<open>try\<close>.\<close>

definition lookupMemory ::
  "faults \<Rightarrow> CacheOptions \<Rightarrow> int \<Rightarrow> string \<Rightarrow> 'v cache_state \<Rightarrow> 'v option" where
  "lookupMemory f opts now key st =
     (if \<not> flag (skipMemory opts)
      then (if memoryGetThrows f then None else nodeGet now key (memoryCache st))
      else None)"

text \<open>The guarded write to the in-process cache, which \<open>get\<close> has twice and \<open>set\<close>
  once, each with its own warning.\<close>

definition storeMemory ::
  "faults \<Rightarrow> CacheOptions \<Rightarrow> int \<Rightarrow> string \<Rightarrow> 'v \<Rightarrow> string \<Rightarrow> 'v cache_state
     \<Rightarrow> log_entry list \<times> 'v cache_state" where
  "storeMemory f opts now key v warning st =
     (if \<not> flag (skipMemory opts)
      then (case memorySetThrows f of
              Some e \<Rightarrow> ([(LWarn, warning, [(''key'', JStr key), (''error'', JStr e)])], st)
            | None \<Rightarrow>
                ([], st\<lparr>memoryCache :=
                          nodeSet now key v (ttlOr (memoryTTL opts) 300) (memoryCache st)\<rparr>))
      else ([], st))"

text \<open>
  The guarded write to the distributed store, which \<open>get\<close> and \<open>set\<close> both have. The
  first list is what is logged at once (\<open>stringify\<close> or \<open>setex\<close> threw), the second
  what the rejected promise logs when it settles.
\<close>

definition storeRedis ::
  "'v codec \<Rightarrow> faults \<Rightarrow> CacheOptions \<Rightarrow> int \<Rightarrow> string \<Rightarrow> 'v \<Rightarrow> string \<Rightarrow> 'v cache_state
     \<Rightarrow> log_entry list \<times> log_entry list \<times> 'v cache_state" where
  "storeRedis c f opts now key v warning st =
     (if \<not> flag (skipRedis opts) \<and> redisAvailable st
      then (case stringify c v of
              Inl e \<Rightarrow>
                ([(LWarn, ''Redis set error'', [(''key'', JStr key), (''error'', JStr e)])], [], st)
            | Inr s \<Rightarrow>
                (case redisSetexThrows f of
                   Some e \<Rightarrow>
                     ([(LWarn, ''Redis set error'', [(''key'', JStr key), (''error'', JStr e)])],
                      [], st)
                 | None \<Rightarrow>
                     (case redisSetexRejects f of
                        Some e \<Rightarrow>
                          ([], [(LWarn, warning, [(''key'', JStr key), (''error'', JStr e)])], st)
                      | None \<Rightarrow>
                          ([], [],
                           st\<lparr>redis := redisSetex now key (ttlOr (redisTTL opts) 3600) s
                                          (redis st)\<rparr>))))
      else ([], [], st))"

text \<open>Level 2 of \<open>get\<close>: the value found in the distributed store, if any, the log and
  the state.\<close>

definition lookupRedis ::
  "'v codec \<Rightarrow> faults \<Rightarrow> CacheOptions \<Rightarrow> int \<Rightarrow> string \<Rightarrow> 'v cache_state
     \<Rightarrow> 'v option \<times> log_entry list \<times> 'v cache_state" where
  "lookupRedis c f opts now key st =
     (if \<not> flag (skipRedis opts) \<and> redisAvailable st
      then (case redisGetFails f of
              Some e \<Rightarrow>
                (None,
                 [(LWarn, ''Redis get failed, falling back to fetch'',
                   [(''key'', JStr key), (''error'', JStr e)])],
                 st)
            | None \<Rightarrow>
                (case redisGet now key (redis st) of
                   None \<Rightarrow> (None, [], st)
                 | Some redisResult \<Rightarrow>
                     if redisResult = [] then (None, [], st)
                     else
                       (case parse c redisResult of
                          Some parsed \<Rightarrow>
                            (let (l, st') = storeMemory f opts now key parsed
                                              ''Memory cache set failed'' st
                             in (Some parsed, l, st'))
                        | None \<Rightarrow>
                            (None,
                             (LWarn, ''Redis cache value parse failed, invalidating'',
                              [(''key'', JStr key)])
                             # (if redisDelFails f \<noteq> None
                                then [(LWarn, ''Failed to delete corrupted cache entry'',
                                       [(''key'', JStr key)])]
                                else []),
                             if redisDelFails f \<noteq> None then st
                             else st\<lparr>redis := (redis st)(key := None)\<rparr>))))
      else (None, [], st))"

text \<open>
  \<open>CacheService.get\<close>. \<open>fetch\<close> is what \<open>fetchFunction()\<close> gives when it is called: a
  value, or the error it throws, which \<open>get\<close> rethrows. \<open>gr_fetched\<close> says whether it
  was called. The write to the distributed store that \<open>get\<close> does not wait for is taken
  to have settled when \<open>get\<close> returns.
\<close>

record ('e, 'v) get_result =
  gr_value :: "'e + 'v"
  gr_fetched :: bool
  gr_logs :: "log_entry list"
  gr_state :: "'v cache_state"

definition cacheGet ::
  "'v codec \<Rightarrow> faults \<Rightarrow> int \<Rightarrow> string \<Rightarrow> 'e + 'v \<Rightarrow> CacheOptions \<Rightarrow> 'v cache_state
     \<Rightarrow> ('e, 'v) get_result" where
  "cacheGet c f now key fetch options st =
     (let opts = mergeOptions defaultOptions options
      in case lookupMemory f opts now key st of
           Some memoryResult \<Rightarrow>
             \<lparr>gr_value = Inr memoryResult, gr_fetched = False, gr_logs = [], gr_state = st\<rparr>
         | None \<Rightarrow>
             (case lookupRedis c f opts now key st of
                (Some parsed, l, st1) \<Rightarrow>
                  \<lparr>gr_value = Inr parsed, gr_fetched = False, gr_logs = l, gr_state = st1\<rparr>
              | (None, l, st1) \<Rightarrow>
                  (case fetch of
                     Inl e \<Rightarrow>
                       \<lparr>gr_value = Inl e, gr_fetched = True, gr_logs = l, gr_state = st1\<rparr>
                   | Inr fresh \<Rightarrow>
                       (let (ls, la, st2) = storeRedis c f opts now key fresh
                                              ''Redis cache set failed'' st1;
                            (lm, st3) = storeMemory f opts now key fresh
                                          ''Memory cache set failed during fetch'' st2
                        in \<lparr>gr_value = Inr fresh, gr_fetched = True,
                            gr_logs = l @ ls @ lm @ la, gr_state = st3\<rparr>))))"

text \<open>\<open>CacheService.set\<close>: it has no path on which it throws; the result is the log and
  the state.\<close>

definition cacheSet ::
  "'v codec \<Rightarrow> faults \<Rightarrow> int \<Rightarrow> string \<Rightarrow> 'v \<Rightarrow> CacheOptions \<Rightarrow> 'v cache_state
     \<Rightarrow> log_entry list \<times> 'v cache_state" where
  "cacheSet c f now key v options st =
     (let opts = mergeOptions defaultOptions options;
          (lm, st1) = storeMemory f opts now key v ''Memory cache set failed'' st;
          (ls, la, st2) = storeRedis c f opts now key v ''Redis set failed'' st1
      in (lm @ ls @ la, st2))"







section \<open>Rate limiter (\<open>src/lib/rate-limit.ts\<close>)\<close>

record RateLimitConfig =
  maxRequests :: int
  windowSeconds :: int
  configIdentifier :: "string option"
  keyGenerator :: "(request \<Rightarrow> string) option"
  message :: "string option"
  skip :: "(request \<Rightarrow> bool) option"

record RateLimitData =
  count :: int
  resetAt :: int

text \<open>What \<open>checkRateLimit\<close> resolves to.\<close>

record RateLimitResult =
  allowed :: bool
  remaining :: int
  windowResetAt :: int

definition getClientIp :: "request \<Rightarrow> string option" where
  "getClientIp req = forwardedIp req"

definition generateRateLimitKey :: "RateLimitConfig \<Rightarrow> request \<Rightarrow> string" where
  "generateRateLimitKey config req =
     (let identifier' =
            (if orEmpty (configIdentifier config) \<noteq> [] then orEmpty (configIdentifier config)
             else if orEmpty (url req) \<noteq> [] then orEmpty (url req)
             else ''api'');
          clientKey = (case keyGenerator config of
                         Some g \<Rightarrow> g req
                       | None \<Rightarrow> tmpl (getClientIp req))
      in ''ratelimit:'' @ identifier' @ '':'' @ clientKey)"

text \<open>
  The cache service as \<open>checkRateLimit\<close> uses it, over any state \<open>'s\<close>:
  \<open>cacheService.get\<close> takes the key, the outcome of the fetch function and the options,
  \<open>cacheService.set\<close> the key, the value and the options; each gives the value it
  resolves to or the message of the error it throws, its log and the new state.
\<close>

type_synonym 's cache_get =
  "string \<Rightarrow> string + RateLimitData \<Rightarrow> CacheOptions \<Rightarrow> 's
     \<Rightarrow> (string + RateLimitData) \<times> log_entry list \<times> 's"

type_synonym 's cache_set =
  "string \<Rightarrow> RateLimitData \<Rightarrow> CacheOptions \<Rightarrow> 's \<Rightarrow> (string + unit) \<times> log_entry list \<times> 's"

text \<open>The \<open>catch\<close> branch: log and allow.\<close>

definition failOpen ::
  "int \<Rightarrow> RateLimitConfig \<Rightarrow> string \<Rightarrow> log_entry list \<Rightarrow> 's
     \<Rightarrow> RateLimitResult \<times> log_entry list \<times> 's" where
  "failOpen now config e l st =
     (\<lparr>allowed = True, remaining = maxRequests config,
       windowResetAt = now + windowSeconds config * 1000\<rparr>,
      l @ [(LError, ''Rate limit check failed'', [(''error'', JStr e)])],
      st)"

definition checkRateLimit ::
  "'s cache_get \<Rightarrow> 's cache_set \<Rightarrow> int \<Rightarrow> string \<Rightarrow> RateLimitConfig \<Rightarrow> 's
     \<Rightarrow> RateLimitResult \<times> log_entry list \<times> 's" where
  "checkRateLimit cacheServiceGet cacheServiceSet now key config st =
     (let windowMs = windowSeconds config * 1000;
          opts = \<lparr>memoryTTL = Some (windowSeconds config),
                  redisTTL = Some (windowSeconds config),
                  skipMemory = None, skipRedis = None\<rparr>
      in case cacheServiceGet key (Inr \<lparr>count = 0, resetAt = now + windowMs\<rparr>) opts st of
           (Inl e, l1, st1) \<Rightarrow> failOpen now config e l1 st1
         | (Inr cached, l1, st1) \<Rightarrow>
             if now \<ge> resetAt cached
             then
               (let newData = \<lparr>count = 1, resetAt = now + windowMs\<rparr>
                in case cacheServiceSet key newData opts st1 of
                     (Inl e, l2, st2) \<Rightarrow> failOpen now config e (l1 @ l2) st2
                   | (Inr u, l2, st2) \<Rightarrow>
                       (\<lparr>allowed = True, remaining = maxRequests config - 1,
                         windowResetAt = resetAt newData\<rparr>,
                        l1 @ l2, st2))
             else
               (let newCount = count cached + 1;
                    allowed' = (newCount \<le> maxRequests config)
                in case cacheServiceSet key \<lparr>count = newCount, resetAt = resetAt cached\<rparr>
                          opts st1 of
                     (Inl e, l2, st2) \<Rightarrow> failOpen now config e (l1 @ l2) st2
                   | (Inr u, l2, st2) \<Rightarrow>
                       (\<lparr>allowed = allowed',
                         remaining = max 0 (maxRequests config - newCount),
                         windowResetAt = resetAt cached\<rparr>,
                        l1 @ l2, st2)))"

text \<open>\<open>Math.ceil(x / 1000)\<close> on integers.\<close>

definition ceilDiv1000 :: "int \<Rightarrow> int" where
  "ceilDiv1000 x = - ((- x) div 1000)"

text \<open>
  \<open>rateLimit(config)(req, res, next)\<close>: the response headers it sets, its log, what it
  did with the request, and the cache state. \<open>now2\<close> is the second reading of the clock,
  for \<open>Retry-After\<close>; \<open>toISOString\<close> is the date formatting of the runtime.
\<close>

definition rateLimit ::
  "'s cache_get \<Rightarrow> 's cache_set \<Rightarrow> (int \<Rightarrow> string) \<Rightarrow> int \<Rightarrow> int \<Rightarrow> RateLimitConfig
     \<Rightarrow> request \<Rightarrow> 'a \<Rightarrow> 's
     \<Rightarrow> (string \<times> string) list \<times> log_entry list \<times> 'a handled \<times> 's" where
  "rateLimit cacheServiceGet cacheServiceSet toISOString now now2 config req next st =
     (if (case skip config of Some sk \<Rightarrow> sk req | None \<Rightarrow> False) then ([], [], Proceed next, st)
      else
        let key = generateRateLimitKey config req;
            (result, l, st') = checkRateLimit cacheServiceGet cacheServiceSet now key config st;
            hs = [(''X-RateLimit-Limit'', showInt (maxRequests config)),
                  (''X-RateLimit-Remaining'', showInt (remaining result)),
                  (''X-RateLimit-Reset'', toISOString (windowResetAt result))]
        in if \<not> allowed result
           then
             (let clientIp = getClientIp req;
                  retryAfter = ceilDiv1000 (windowResetAt result - now2)
              in (hs @ [(''Retry-After'', showInt retryAfter)],
                  l @ [(LWarn, ''Rate limit exceeded'',
                        [(''path'', optStr (url req)), (''method'', optStr (httpMethod req)),
                         (''ip'', optStr clientIp), (''limit'', JNum (maxRequests config)),
                         (''window'', JNum (windowSeconds config))])],
                  Replied \<lparr>status = 429,
                    body = [(''error'', JStr ''Too Many Requests''),
                            (''message'',
                             JStr (if orEmpty (message config) \<noteq> [] then orEmpty (message config)
                                   else ''Too many requests, please try again later.'')),
                            (''retryAfter'', JNum retryAfter)]\<rparr>,
                  st'))
           else (hs, l, Proceed next, st'))"

text \<open>The rate limiter on the tiered cache: \<open>cacheService\<close> is a \<open>CacheService\<close>, whose
  \<open>get\<close> rethrows what the fetch function throws and whose \<open>set\<close> does not throw.
  \<open>fg\<close> and \<open>fs\<close> are the faults of the tiers during the one \<open>get\<close> and the one
  \<open>set\<close> of a check.\<close>

definition serviceGet :: "RateLimitData codec \<Rightarrow> faults \<Rightarrow> int \<Rightarrow> RateLimitData cache_state cache_get" where
  "serviceGet c f now key fetch options st =
     (let r = cacheGet c f now key fetch options st in (gr_value r, gr_logs r, gr_state r))"

definition serviceSet :: "RateLimitData codec \<Rightarrow> faults \<Rightarrow> int \<Rightarrow> RateLimitData cache_state cache_set" where
  "serviceSet c f now key v options st =
     (let (l, st') = cacheSet c f now key v options st in (Inr (), l, st'))"

definition checkRateLimitCached ::
  "RateLimitData codec \<Rightarrow> faults \<Rightarrow> faults \<Rightarrow> int \<Rightarrow> string \<Rightarrow> RateLimitConfig
     \<Rightarrow> RateLimitData cache_state \<Rightarrow> RateLimitResult \<times> log_entry list \<times> RateLimitData cache_state" where
  "checkRateLimitCached c fg fs now key config st =
     checkRateLimit (serviceGet c fg now) (serviceSet c fs now) now key config st"

text \<open>The checks of one client on one key, one after the other: each with the time at
  which it runs and the faults of the tiers during its \<open>get\<close> and its \<open>set\<close>.\<close>

fun checkMany ::
  "RateLimitData codec \<Rightarrow> string \<Rightarrow> RateLimitConfig \<Rightarrow> (int \<times> faults \<times> faults) list
     \<Rightarrow> RateLimitData cache_state \<Rightarrow> RateLimitResult list" where
  "checkMany c key config [] st = []"
| "checkMany c key config ((now, fg, fs) # rest) st =
     (let (r, l, st') = checkRateLimitCached c fg fs now key config st
      in r # checkMany c key config rest st')"

text \<open>The predefined policy for the authentication endpoints: 5 requests per 15 minutes.\<close>

definition authRateLimit :: RateLimitConfig where
  "authRateLimit =
     \<lparr>maxRequests = 5, windowSeconds = 15 * 60, configIdentifier = Some ''auth'',
      keyGenerator = None,
      message = Some ''Too many authentication attempts. Please try again in 15 minutes.'',
      skip = None\<rparr>"

text \<open>The options \<open>checkRateLimit\<close> passes to the cache, and the record a check writes
  when the cache gave it \<open>cached\<close>.\<close>

abbreviation windowOptions :: "RateLimitConfig \<Rightarrow> CacheOptions" where
  "windowOptions config \<equiv>
     \<lparr>memoryTTL = Some (windowSeconds config), redisTTL = Some (windowSeconds config),
      skipMemory = None, skipRedis = None\<rparr>"

abbreviation nextData :: "int \<Rightarrow> RateLimitConfig \<Rightarrow> RateLimitData \<Rightarrow> RateLimitData" where
  "nextData now config cached \<equiv>
     (if resetAt cached \<le> now
      then \<lparr>count = 1, resetAt = now + windowSeconds config * 1000\<rparr>
      else \<lparr>count = count cached + 1, resetAt = resetAt cached\<rparr>)"

text \<open>The \<open>cacheService.get\<close> of a check at time \<open>now\<close>, whose fetch function gives an
  empty counter for a window that starts now.\<close>

abbreviation checkGet ::
  "RateLimitData codec \<Rightarrow> faults \<Rightarrow> int \<Rightarrow> string \<Rightarrow> RateLimitConfig \<Rightarrow> RateLimitData cache_state
     \<Rightarrow> (string, RateLimitData) get_result" where
  "checkGet c fg now key config st \<equiv>
     cacheGet c fg now key (Inr \<lparr>count = 0, resetAt = now + windowSeconds config * 1000\<rparr>)
       (windowOptions config) st"

section \<open>Properties of the soft-delete interceptor\<close>

lemma supportsSoftDelete_User: "supportsSoftDelete ''User''"
  by (simp add: supportsSoftDelete_def SOFT_DELETE_MODELS_def)

text \<open>
  The read filter on \<open>findMany\<close>, \<open>count\<close> and \<open>aggregate\<close>: the default
  \<open>deletedAt: null\<close> is merged exactly when the caller gave no \<open>deletedAt\<close> condition,
  and a condition the caller gave stays as it is.
\<close>

lemma readMiddleware_many_count_aggregate:
  assumes "supportsSoftDelete (orEmpty (model p))"
    and "action p = FindMany \<or> action p = Count \<or> action p = Aggregate"
  shows "args_where (args (readMiddleware p)) =
           (if hasDeletedAt (args_where (args p)) then args_where (args p)
            else Some (spreadDeletedAtNull (args_where (args p))))"
  using assms
  by (auto simp: readMiddleware_def Let_def setWhere_def defaultDeletedAt_def hasDeletedAt_def
        spreadDeletedAtNull_def split: option.splits)

text \<open>On \<open>findUnique\<close> and \<open>findFirst\<close> the filter is written over whatever the caller
  gave.\<close>

lemma readMiddleware_unique_first:
  assumes "supportsSoftDelete (orEmpty (model p))"
    and "action p = FindUnique \<or> action p = FindFirst"
  shows "args_where (args (readMiddleware p)) = Some (spreadDeletedAtNull (args_where (args p)))"
  using assms
  by (auto simp: readMiddleware_def Let_def setWhere_def)

text \<open>
  C1. The specification says that on every read (\<open>findUnique\<close>, \<open>findFirst\<close>, \<open>findMany\<close>, \<open>count\<close>,
  \<open>aggregate\<close>) of a soft-delete model, an explicit \<open>deletedAt\<close> clause of the caller is
  preserved and the default is not injected. The code does not do this for \<open>findFirst\<close>
  (nor \<open>findUnique\<close>): the query \<open>findFirst({ where: { id, deletedAt: { not: null } } })\<close>
  of the migration guide's own test reaches the data-access handle as
  \<open>{ id, deletedAt: null }\<close>.
\<close>

theorem findFirst_overwrites_explicit_deletedAt:
  "args_where (args (readMiddleware \<lparr>model = Some ''User'', action = FindFirst,
       args = \<lparr>args_where = Some [(''id'', JStr ''u1''), (''deletedAt'', JObj [(''not'', JNull)])],
               args_data = None\<rparr>\<rparr>))
   = Some [(''id'', JStr ''u1''), (''deletedAt'', JNull)]"
  by (simp add: readMiddleware_def supportsSoftDelete_User orEmpty_def setWhere_def
        spreadDeletedAtNull_def setProp_def)

text \<open>
  C4. A \<open>delete\<close> or \<open>deleteMany\<close> on a soft-delete model reaches the data-access
  handle as an \<open>update\<close>, respectively \<open>updateMany\<close>, on the same model with the same
  \<open>where\<close> and with \<open>data = { deletedAt: now }\<close>: what is issued is never a delete, so
  the rows stay in the table.
\<close>

theorem softDelete_rewrites_delete:
  assumes "supportsSoftDelete (orEmpty (model p))"
    and "action p = Delete \<or> action p = DeleteMany"
  shows "let p' = p\<lparr>action := (if action p = Delete then Update else UpdateMany),
                     args := (args p)\<lparr>args_data := Some [(''deletedAt'', JDate now)]\<rparr>\<rparr>
         in snd (softDeleteInterceptor now next p) = next p'
            \<and> action p' \<in> {Update, UpdateMany}
            \<and> model p' = model p
            \<and> args_where (args p') = args_where (args p)
            \<and> args_data (args p') = Some [(''deletedAt'', JDate now)]"
  using assms
  by (auto simp: softDeleteInterceptor_def deleteMiddleware_def readMiddleware_def Let_def)

theorem softDelete_rewrites_delete_witness:
  "supportsSoftDelete (orEmpty (model \<lparr>model = Some ''User'', action = Delete,
       args = \<lparr>args_where = Some [(''id'', JStr ''123'')], args_data = None\<rparr>\<rparr>))
   \<and> snd (softDeleteInterceptor 1700000000000 (\<lambda>q. q) \<lparr>model = Some ''User'', action = Delete,
       args = \<lparr>args_where = Some [(''id'', JStr ''123'')], args_data = None\<rparr>\<rparr>)
     = \<lparr>model = Some ''User'', action = Update,
        args = \<lparr>args_where = Some [(''id'', JStr ''123'')],
                args_data = Some [(''deletedAt'', JDate 1700000000000)]\<rparr>\<rparr>"
  using softDelete_rewrites_delete [of "\<lparr>model = Some ''User'', action = Delete,
       args = \<lparr>args_where = Some [(''id'', JStr ''123'')], args_data = None\<rparr>\<rparr>" 1700000000000 "\<lambda>q. q"]
  by (simp add: supportsSoftDelete_User orEmpty_def Let_def)

text \<open>
  C5. \<open>hardDelete\<close> with an empty filter object resolves to \<open>false\<close> and logs
  \<open>Hard delete failed\<close>; it issues no statement, and the database is as it was.
\<close>

theorem hardDelete_rejects_empty_filter:
  "hd_ok (hardDelete pr m [] ctx db) = False
   \<and> hd_issued (hardDelete pr m [] ctx db) = []
   \<and> hd_db (hardDelete pr m [] ctx db) = db
   \<and> (\<exists>msg. last (hd_logs (hardDelete pr m [] ctx db)) = hardDeleteFailed m [] msg)"
  by (auto simp: hardDelete_def Let_def)

section \<open>Properties of the API version router\<close>

lemma getApiVersion_header_v99:
  "getApiVersion \<lparr>headers = [''x-api-version'' \<mapsto> HStr ''v99''], query = Map.empty,
      url = Some ''/api/products'', httpMethod = Some ''GET'', remoteAddress = None\<rparr> = HStr ''v1''"
  by (simp add: getApiVersion_def orElse_def truthy_def isSupportedVersion_def
      SUPPORTED_VERSIONS_def CURRENT_VERSION_def orEmpty_def matchVersionHere_def Let_def)

lemma getApiVersion_supported: "isSupportedVersion (getApiVersion req)"
  by (auto simp: getApiVersion_def Let_def isSupportedVersion_def CURRENT_VERSION_def
      SUPPORTED_VERSIONS_def split: option.splits)

text \<open>
  C3. The specification says that a request that asks for an unsupported version is rejected with a
  400-class error. The code does not: the request of the versioning guide's test,
  \<open>X-API-Version: v99\<close>, is dispatched to the \<open>v1\<close> handler and answered under
  \<open>v1\<close>.
\<close>

theorem unsupported_header_version_is_served_as_current:
  "versionedHandler [''v1'' \<mapsto> (\<lambda>r. ''v1 response'')] [''v1'']
     \<lparr>headers = [''x-api-version'' \<mapsto> HStr ''v99''], query = Map.empty,
      url = Some ''/api/products'', httpMethod = Some ''GET'', remoteAddress = None\<rparr>
   = ([], Served [(''X-API-Version'', ''v1''), (''X-API-Current-Version'', ''v1''),
                  (''X-API-Supported-Versions'', ''v1'')] ''v1 response'')"
  by (simp add: versionedHandler_def getApiVersion_def orElse_def truthy_def isSupportedVersion_def
      SUPPORTED_VERSIONS_def CURRENT_VERSION_def orEmpty_def matchVersionHere_def Let_def
      hvalString_def)

text \<open>
  C10. For every request the resolved version is a supported one, and the dispatcher
  never takes its unsupported-version branch: whenever it rejects a request itself, it is
  with status 501.
\<close>

theorem resolved_version_always_supported:
  "isSupportedVersion (getApiVersion req)
   \<and> (snd (versionedHandler handlers handlerKeys req) = Rejected r \<longrightarrow> status r = 501)"
  using getApiVersion_supported [of req]
  by (auto simp: versionedHandler_def Let_def split: option.splits)

theorem resolved_version_always_supported_witness:
  "snd (versionedHandler (Map.empty :: string \<rightharpoonup> (request \<Rightarrow> unit)) []
     \<lparr>headers = [''x-api-version'' \<mapsto> HStr ''v99''], query = Map.empty,
      url = Some ''/api/products'', httpMethod = Some ''GET'', remoteAddress = None\<rparr>)
    = Rejected \<lparr>status = 501, body = [(''error'', JStr ''Version Not Implemented''),
         (''message'', JStr (''This endpoint does not support version '' @ [CHR 0x27] @ ''v1''
                             @ [CHR 0x27])),
         (''supportedVersions'', JArr [])]\<rparr>
   \<and> status \<lparr>status = 501, body = [(''error'', JStr ''Version Not Implemented''),
         (''message'', JStr (''This endpoint does not support version '' @ [CHR 0x27] @ ''v1''
                             @ [CHR 0x27])),
         (''supportedVersions'', JArr [])]\<rparr> = 501"
  using resolved_version_always_supported [of
     "\<lparr>headers = [''x-api-version'' \<mapsto> HStr ''v99''], query = Map.empty,
      url = Some ''/api/products'', httpMethod = Some ''GET'', remoteAddress = None\<rparr>"
     "Map.empty :: string \<rightharpoonup> (request \<Rightarrow> unit)" "[]"]
  by (simp add: versionedHandler_def hvalString_def getApiVersion_header_v99
        isSupportedVersion_def SUPPORTED_VERSIONS_def)

section \<open>Properties of the CSRF guard\<close>

text \<open>
  What the guard does for a request whose method is one of the configured methods
  (\<open>POST\<close>, \<open>PUT\<close>, \<open>DELETE\<close>, \<open>PATCH\<close> unless the configuration names others) and
  whose URL contains none of the configured \<open>skipPaths\<close> as a substring: without an
  \<open>X-CSRF-Token\<close> header the answer is status 403 with a structured body, and with a
  token that fails verification against the session identity it is status 403 as well; in
  both cases the wrapped handler is not run, and one security event with the path, the
  method and the originating address is logged.
\<close>

theorem csrf_rejects_missing_or_invalid_token:
  assumes "orEmpty (httpMethod req) \<in> set (case methods config of None \<Rightarrow> DEFAULT_METHODS | Some ms \<Rightarrow> ms)"
    and "\<not> list_ex (strIncludes (orEmpty (url req)))
             (case skipPaths config of None \<Rightarrow> [] | Some ps \<Rightarrow> ps)"
  shows "(\<not> truthy (headers req ''x-csrf-token'') \<longrightarrow>
            withCSRF handler config verifyToken sessionUserId req =
              ([(LSecurity, ''CSRF token missing'',
                 [(''path'', optStr (url req)), (''method'', optStr (httpMethod req)),
                  (''ip'', originIp req)])],
               Replied \<lparr>status = 403,
                        body = [(''error'', JStr ''CSRF Validation Failed''),
                                (''message'', JStr ''CSRF token is required'')]\<rparr>))
       \<and> (truthy (headers req ''x-csrf-token'')
            \<and> \<not> verifyToken (the (headers req ''x-csrf-token'')) (getSessionId sessionUserId req) \<longrightarrow>
            withCSRF handler config verifyToken sessionUserId req =
              ([(LSecurity, ''CSRF token validation failed'',
                 [(''path'', optStr (url req)), (''method'', optStr (httpMethod req)),
                  (''ip'', originIp req),
                  (''sessionId'', JStr (getSessionId sessionUserId req))])],
               Replied \<lparr>status = 403,
                        body = [(''error'', JStr ''CSRF Validation Failed''),
                                (''message'', JStr (case errorMessage config of
                                     None \<Rightarrow> ''Invalid or missing CSRF token'' | Some m \<Rightarrow> m))]\<rparr>))"
  using assms
  by (simp add: withCSRF_def csrfProtection_def Let_def)

lemma strIncludes_orders_auth: "\<not> strIncludes ''/api/orders'' ''/api/auth''"
  by simp

theorem csrf_rejects_missing_or_invalid_token_witness:
  "withCSRF (\<lambda>r. ''handled'') \<lparr>skipPaths = Some [''/api/auth''], methods = None, errorMessage = None\<rparr>
      (\<lambda>t s. False) None
      \<lparr>headers = [''x-forwarded-for'' \<mapsto> HStr ''203.0.113.7''], query = Map.empty,
       url = Some ''/api/orders'', httpMethod = Some ''POST'', remoteAddress = Some ''10.0.0.1''\<rparr>
    = ([(LSecurity, ''CSRF token missing'',
         [(''path'', JStr ''/api/orders''), (''method'', JStr ''POST''),
          (''ip'', JStr ''203.0.113.7'')])],
       Replied \<lparr>status = 403,
                body = [(''error'', JStr ''CSRF Validation Failed''),
                        (''message'', JStr ''CSRF token is required'')]\<rparr>)
   \<and> withCSRF (\<lambda>r. ''handled'') \<lparr>skipPaths = Some [''/api/auth''], methods = None, errorMessage = None\<rparr>
      (\<lambda>t s. False) (Some ''user-1'')
      \<lparr>headers = [''x-csrf-token'' \<mapsto> HStr ''forged''], query = Map.empty,
       url = Some ''/api/orders'', httpMethod = Some ''DELETE'', remoteAddress = Some ''10.0.0.1''\<rparr>
    = ([(LSecurity, ''CSRF token validation failed'',
         [(''path'', JStr ''/api/orders''), (''method'', JStr ''DELETE''),
          (''ip'', JStr ''10.0.0.1''), (''sessionId'', JStr ''user-1'')])],
       Replied \<lparr>status = 403,
                body = [(''error'', JStr ''CSRF Validation Failed''),
                        (''message'', JStr ''Invalid or missing CSRF token'')]\<rparr>)"
  using
    csrf_rejects_missing_or_invalid_token [of
      "\<lparr>headers = [''x-forwarded-for'' \<mapsto> HStr ''203.0.113.7''], query = Map.empty,
       url = Some ''/api/orders'', httpMethod = Some ''POST'', remoteAddress = Some ''10.0.0.1''\<rparr>"
      "\<lparr>skipPaths = Some [''/api/auth''], methods = None, errorMessage = None\<rparr>"
      "\<lambda>r. ''handled''" "\<lambda>t s. False" None]
    csrf_rejects_missing_or_invalid_token [of
      "\<lparr>headers = [''x-csrf-token'' \<mapsto> HStr ''forged''], query = Map.empty,
       url = Some ''/api/orders'', httpMethod = Some ''DELETE'', remoteAddress = Some ''10.0.0.1''\<rparr>"
      "\<lparr>skipPaths = Some [''/api/auth''], methods = None, errorMessage = None\<rparr>"
      "\<lambda>r. ''handled''" "\<lambda>t s. False" "Some ''user-1''"]
  by (simp add: DEFAULT_METHODS_def orEmpty_def truthy_def optStr_def originIp_def hvalJs_def
        getSessionId_def strIncludes_orders_auth)

text \<open>
  C9. The specification has every state-changing request whose path is not exempt rejected
  with status 403 when it carries no token. The guard decides exemption with
  \<open>path.includes(skipPath)\<close> on \<open>req.url\<close>, the query string included: with
  \<open>/api/auth\<close> exempt, a \<open>POST\<close> to \<open>/api/orders?next=/api/auth\<close> without a token
  is not rejected and not logged, and the wrapped handler runs.
\<close>

theorem csrf_exempt_string_in_query_bypasses:
  "withCSRF (\<lambda>r. ''handled'')
      \<lparr>skipPaths = Some [''/api/auth''], methods = None, errorMessage = None\<rparr>
      (\<lambda>t s. False) None
      \<lparr>headers = Map.empty, query = [''next'' \<mapsto> HStr ''/api/auth''], url = Some ''/api/orders?next=/api/auth'', httpMethod = Some ''POST'', remoteAddress = Some ''10.0.0.1''\<rparr>
    = ([], Proceed ''handled'')"
  by (simp add: withCSRF_def csrfProtection_def DEFAULT_METHODS_def orEmpty_def Let_def)

section \<open>Properties of the tiered cache\<close>


lemma storeRedis_memory:
  "memoryCache (snd (snd (storeRedis c f opts now key v w st))) = memoryCache st"
  by (simp add: storeRedis_def split: option.splits sum.splits)





lemma usesMemory:
  "skipMemory options \<noteq> Some True \<Longrightarrow> \<not> flag (skipMemory (mergeOptions defaultOptions options))"
  by (cases "skipMemory options")
     (simp_all add: mergeOptions_def defaultOptions_def orDefault_def flag_def)

lemma cacheSet_memory:
  assumes "skipMemory options \<noteq> Some True" and "memorySetThrows f = None"
  shows "memoryCache (snd (cacheSet c f now k v options st)) k
           = Some (v, now + ttlOr (memoryTTL (mergeOptions defaultOptions options)) 300 * 1000)"
proof -
  have nz: "ttlOr (memoryTTL (mergeOptions defaultOptions options)) 300 \<noteq> 0"
    by (simp add: ttlOr_def split: option.splits)
  show ?thesis
    using nz usesMemory [OF assms(1)] assms(2)
    by (simp add: cacheSet_def Let_def split_beta storeRedis_memory storeMemory_def nodeSet_def)
qed

lemma cacheGet_memory_read:
  assumes "\<not> flag (skipMemory (mergeOptions defaultOptions options))" and "\<not> memoryGetThrows f"
    and "memoryCache st k = Some (v, t)" and "now \<le> t"
  shows "cacheGet c f now k fetch options st
           = \<lparr>gr_value = Inr v, gr_fetched = False, gr_logs = [], gr_state = st\<rparr>"
proof -
  have "lookupMemory f (mergeOptions defaultOptions options) now k st = Some v"
    using assms by (simp add: lookupMemory_def nodeGet_def)
  then show ?thesis by (simp add: cacheGet_def)
qed

lemma cacheGet_memory_hit:
  assumes "skipMemory options \<noteq> Some True" and "\<not> memoryGetThrows f"
    and "memoryCache st k = Some (v, t)" and "now \<le> t"
  shows "cacheGet c f now k fetch options st
           = \<lparr>gr_value = Inr v, gr_fetched = False, gr_logs = [], gr_state = st\<rparr>"
  by (rule cacheGet_memory_read [OF usesMemory [OF assms(1)] assms(2-4)])






lemma cacheGet_miss:
  assumes "lookupMemory f (mergeOptions defaultOptions options) now key st = None"
    and "lookupRedis c f (mergeOptions defaultOptions options) now key st = (None, l, st1)"
  shows "gr_value (cacheGet c f now key fetch options st) = fetch"
    and "gr_fetched (cacheGet c f now key fetch options st)"
    and "set l \<subseteq> set (gr_logs (cacheGet c f now key fetch options st))"
    and "fetch = Inl e \<Longrightarrow> gr_state (cacheGet c f now key fetch options st) = st1"
    and "fetch = Inr fresh \<Longrightarrow>
           gr_state (cacheGet c f now key fetch options st) =
             snd (storeMemory f (mergeOptions defaultOptions options) now key fresh
                    ''Memory cache set failed during fetch''
                    (snd (snd (storeRedis c f (mergeOptions defaultOptions options) now key fresh
                                 ''Redis cache set failed'' st1))))"
    and "fetch = Inr fresh \<Longrightarrow>
           gr_logs (cacheGet c f now key fetch options st) =
             l @ fst (storeRedis c f (mergeOptions defaultOptions options) now key fresh
                                 ''Redis cache set failed'' st1)
               @ fst (storeMemory f (mergeOptions defaultOptions options) now key fresh
                    ''Memory cache set failed during fetch''
                    (snd (snd (storeRedis c f (mergeOptions defaultOptions options) now key fresh
                                 ''Redis cache set failed'' st1))))
               @ fst (snd (storeRedis c f (mergeOptions defaultOptions options) now key fresh
                                 ''Redis cache set failed'' st1))"
  using assms
  by (auto simp: cacheGet_def Let_def split_beta split: sum.splits)

lemma cacheGet_error_from_fetch:
  "gr_value (cacheGet c f now key fetch options st) = Inl e \<Longrightarrow> fetch = Inl e"
proof -
  assume a: "gr_value (cacheGet c f now key fetch options st) = Inl e"
  let ?opts = "mergeOptions defaultOptions options"
  obtain r l st1 where lr: "lookupRedis c f ?opts now key st = (r, l, st1)"
    by (cases "lookupRedis c f ?opts now key st") auto
  show ?thesis
    using a lr
    by (cases "lookupMemory f ?opts now key st"; cases r; cases fetch)
       (simp_all add: cacheGet_def Let_def split_beta)
qed

lemma lookupRedis_corrupt:
  assumes "\<not> flag (skipRedis opts)" and "redisAvailable st" and "redisGetFails f = None"
    and "redisGet now key (redis st) = Some s" and "s \<noteq> []" and "parse c s = None"
  shows "lookupRedis c f opts now key st =
           (None,
            (LWarn, ''Redis cache value parse failed, invalidating'', [(''key'', JStr key)])
            # (if redisDelFails f \<noteq> None
               then [(LWarn, ''Failed to delete corrupted cache entry'', [(''key'', JStr key)])]
               else []),
            if redisDelFails f \<noteq> None then st else st\<lparr>redis := (redis st)(key := None)\<rparr>)"
  using assms by (simp add: lookupRedis_def)

lemma lookupRedis_get_fails:
  assumes "\<not> flag (skipRedis opts)" and "redisAvailable st" and "redisGetFails f = Some e"
  shows "lookupRedis c f opts now key st =
           (None, [(LWarn, ''Redis get failed, falling back to fetch'',
                    [(''key'', JStr key), (''error'', JStr e)])], st)"
  using assms by (simp add: lookupRedis_def)

lemma lookupRedis_unavailable:
  "\<not> redisAvailable st \<Longrightarrow> lookupRedis c f opts now key st = (None, [], st)"
  by (simp add: lookupRedis_def)

lemma storeRedis_unavailable:
  "\<not> redisAvailable st \<Longrightarrow> storeRedis c f opts now key v w st = ([], [], st)"
  by (simp add: storeRedis_def)

lemma storeRedis_key:
  "redis (snd (snd (storeRedis c f opts now key v w st))) key = redis st key
   \<or> (\<exists>s. stringify c v = Inr s
          \<and> redis (snd (snd (storeRedis c f opts now key v w st))) key
              = Some (s, now + ttlOr (redisTTL opts) 3600 * 1000))"
  by (simp add: storeRedis_def redisSetex_def split: option.splits sum.splits)

lemma storeMemory_redis: "redis (snd (storeMemory f opts now key v w st)) = redis st"
  by (simp add: storeMemory_def split: option.splits)

lemma storeMemory_available:
  "redisAvailable (snd (storeMemory f opts now key v w st)) = redisAvailable st"
  by (simp add: storeMemory_def split: option.splits)


lemma cacheGet_corrupt_entry:
  assumes miss: "lookupMemory f (mergeOptions defaultOptions options) now key st = None"
    and "\<not> flag (skipRedis (mergeOptions defaultOptions options))" and "redisAvailable st"
    and "redisGetFails f = None"
    and "redisGet now key (redis st) = Some s" and "s \<noteq> []" and "parse c s = None"
  shows "gr_value (cacheGet c f now key fetch options st) = fetch"
    and "gr_fetched (cacheGet c f now key fetch options st)"
    and "(LWarn, ''Redis cache value parse failed, invalidating'', [(''key'', JStr key)])
           \<in> set (gr_logs (cacheGet c f now key fetch options st))"
    and "redisDelFails f = None \<Longrightarrow>
           redis (gr_state (cacheGet c f now key fetch options st)) key = None
           \<or> (\<exists>fresh s'. fetch = Inr fresh \<and> stringify c fresh = Inr s'
                 \<and> redis (gr_state (cacheGet c f now key fetch options st)) key
                     = Some (s', now + ttlOr (redisTTL (mergeOptions defaultOptions options)) 3600 * 1000))"
proof -
  let ?opts = "mergeOptions defaultOptions options"
  note lr = lookupRedis_corrupt [OF assms(2-7)]
  show "gr_value (cacheGet c f now key fetch options st) = fetch"
    by (rule cacheGet_miss(1) [OF miss lr])
  show "gr_fetched (cacheGet c f now key fetch options st)"
    by (rule cacheGet_miss(2) [OF miss lr])
  show "(LWarn, ''Redis cache value parse failed, invalidating'', [(''key'', JStr key)])
           \<in> set (gr_logs (cacheGet c f now key fetch options st))"
    using cacheGet_miss(3) [OF miss lr, of fetch] by auto
  assume del: "redisDelFails f = None"
  let ?st1 = "st\<lparr>redis := (redis st)(key := None)\<rparr>"
  have lr': "lookupRedis c f ?opts now key st =
               (None, [(LWarn, ''Redis cache value parse failed, invalidating'',
                        [(''key'', JStr key)])], ?st1)"
    using lr del by simp
  show "redis (gr_state (cacheGet c f now key fetch options st)) key = None
           \<or> (\<exists>fresh s'. fetch = Inr fresh \<and> stringify c fresh = Inr s'
                 \<and> redis (gr_state (cacheGet c f now key fetch options st)) key
                     = Some (s', now + ttlOr (redisTTL ?opts) 3600 * 1000))"
  proof (cases fetch)
    case (Inl e)
    then show ?thesis using cacheGet_miss(4) [OF miss lr' Inl] by simp
  next
    case (Inr fresh)
    have "redis (gr_state (cacheGet c f now key fetch options st)) key
            = redis (snd (snd (storeRedis c f ?opts now key fresh ''Redis cache set failed'' ?st1))) key"
      using cacheGet_miss(5) [OF miss lr' Inr] by (simp add: storeMemory_redis)
    moreover have "redis ?st1 key = None" by simp
    ultimately show ?thesis
      using storeRedis_key [of c f ?opts now key fresh "''Redis cache set failed''" ?st1] Inr
      by auto
  qed
qed

lemma cacheGet_command_failure:
  assumes miss: "lookupMemory f (mergeOptions defaultOptions options) now key st = None"
    and "\<not> flag (skipRedis (mergeOptions defaultOptions options))" and "redisAvailable st"
    and "redisGetFails f = Some e"
  shows "gr_value (cacheGet c f now key fetch options st) = fetch"
    and "gr_fetched (cacheGet c f now key fetch options st)"
    and "(LWarn, ''Redis get failed, falling back to fetch'',
          [(''key'', JStr key), (''error'', JStr e)])
           \<in> set (gr_logs (cacheGet c f now key fetch options st))"
proof -
  note lr = lookupRedis_get_fails [OF assms(2-4), of c now key]
  show "gr_value (cacheGet c f now key fetch options st) = fetch"
    by (rule cacheGet_miss(1) [OF miss lr])
  show "gr_fetched (cacheGet c f now key fetch options st)"
    by (rule cacheGet_miss(2) [OF miss lr])
  show "(LWarn, ''Redis get failed, falling back to fetch'',
          [(''key'', JStr key), (''error'', JStr e)])
           \<in> set (gr_logs (cacheGet c f now key fetch options st))"
    using cacheGet_miss(3) [OF miss lr, of fetch] by auto
qed

lemma cacheGet_unavailable:
  assumes miss: "lookupMemory f (mergeOptions defaultOptions options) now key st = None"
    and un: "\<not> redisAvailable st"
  shows "gr_value (cacheGet c f now key fetch options st) = fetch"
    and "gr_fetched (cacheGet c f now key fetch options st)"
    and "redis (gr_state (cacheGet c f now key fetch options st)) = redis st"
    and "\<forall>e \<in> set (gr_logs (cacheGet c f now key fetch options st)).
           fst (snd e) = ''Memory cache set failed during fetch''"
proof -
  let ?opts = "mergeOptions defaultOptions options"
  note lr = lookupRedis_unavailable [OF un, of c f ?opts now key]
  show "gr_value (cacheGet c f now key fetch options st) = fetch"
    by (rule cacheGet_miss(1) [OF miss lr])
  show "gr_fetched (cacheGet c f now key fetch options st)"
    by (rule cacheGet_miss(2) [OF miss lr])
  show "redis (gr_state (cacheGet c f now key fetch options st)) = redis st"
  proof (cases fetch)
    case (Inl e)
    then show ?thesis using cacheGet_miss(4) [OF miss lr Inl] by simp
  next
    case (Inr fresh)
    then show ?thesis
      using cacheGet_miss(5) [OF miss lr Inr] un
      by (simp add: storeMemory_redis storeRedis_unavailable)
  qed
  show "\<forall>e \<in> set (gr_logs (cacheGet c f now key fetch options st)).
           fst (snd e) = ''Memory cache set failed during fetch''"
  proof (cases fetch)
    case (Inl e)
    then show ?thesis using miss lr by (simp add: cacheGet_def)
  next
    case (Inr fresh)
    then show ?thesis
      using cacheGet_miss(6) [OF miss lr Inr] un
      by (auto simp: storeRedis_unavailable storeMemory_def split: option.splits if_splits)
  qed
qed

lemma cacheSet_redis_failure:
  assumes "\<not> flag (skipRedis (mergeOptions defaultOptions options))" and "redisAvailable st"
    and "stringify c v = Inl e
         \<or> (\<exists>s. stringify c v = Inr s
                \<and> (redisSetexThrows f = Some e
                    \<or> redisSetexThrows f = None \<and> redisSetexRejects f = Some e))"
  shows "redis (snd (cacheSet c f now key v options st)) = redis st"
    and "\<exists>msg. (LWarn, msg, [(''key'', JStr key), (''error'', JStr e)])
                 \<in> set (fst (cacheSet c f now key v options st))"
  using assms
  by (auto simp: cacheSet_def Let_def split_beta storeRedis_def storeMemory_redis
        storeMemory_available)

lemma cacheSet_unavailable:
  assumes "\<not> redisAvailable st"
  shows "redis (snd (cacheSet c f now key v options st)) = redis st"
    and "\<forall>e \<in> set (fst (cacheSet c f now key v options st)). fst (snd e) = ''Memory cache set failed''"
  using assms
  by (auto simp: cacheSet_def Let_def split_beta storeRedis_def storeMemory_def
        split: option.splits if_splits)


lemma lookupRedis_empty:
  assumes "\<not> flag (skipRedis opts)" and "redisAvailable st" and "redisGetFails f = None"
    and "redisGet now key (redis st) = Some []"
  shows "lookupRedis c f opts now key st = (None, [], st)"
  using assms by (simp add: lookupRedis_def)

lemma cacheGet_empty_entry:
  assumes miss: "lookupMemory f (mergeOptions defaultOptions options) now key st = None"
    and "\<not> flag (skipRedis (mergeOptions defaultOptions options))" and "redisAvailable st"
    and "redisGetFails f = None" and "redisGet now key (redis st) = Some []"
  shows "gr_value (cacheGet c f now key fetch options st) = fetch"
    and "gr_fetched (cacheGet c f now key fetch options st)"
proof -
  note lr = lookupRedis_empty [OF assms(2-5), of c]
  show "gr_value (cacheGet c f now key fetch options st) = fetch"
    by (rule cacheGet_miss(1) [OF miss lr])
  show "gr_fetched (cacheGet c f now key fetch options st)"
    by (rule cacheGet_miss(2) [OF miss lr])
qed

lemma cacheGet_corrupt_del_fails:
  assumes miss: "lookupMemory f (mergeOptions defaultOptions options) now key st = None"
    and "\<not> flag (skipRedis (mergeOptions defaultOptions options))" and "redisAvailable st"
    and "redisGetFails f = None"
    and "redisGet now key (redis st) = Some s" and "s \<noteq> []" and "parse c s = None"
    and del: "redisDelFails f \<noteq> None"
  shows "(LWarn, ''Failed to delete corrupted cache entry'', [(''key'', JStr key)])
           \<in> set (gr_logs (cacheGet c f now key fetch options st))"
  using cacheGet_miss(3) [OF miss lookupRedis_corrupt [OF assms(2-7)], of fetch] del by auto

text \<open>
  C6, as the code has it. A \<open>get\<close> throws only what the fetch function throws. When the
  in-process tier misses and the distributed tier holds under the key a non-empty value
  that does not decode, the call returns the outcome of the fetch function, logs a warning
  with the key and issues the \<open>del\<close>: when the \<open>del\<close> succeeds, what the distributed
  tier then holds under the key is nothing or the fresh value just written, and when it
  fails a second warning is logged. An empty stored value is read as a miss, with no
  warning and no \<open>del\<close>. A failing distributed \<open>get\<close> is a miss with a warning that
  names the key; a failing distributed write in \<open>set\<close> (serialisation, \<open>setex\<close>
  throwing or its promise rejected) leaves the distributed tier as it was, with a warning
  that names the key. When the distributed tier is unavailable it is skipped, a miss for
  \<open>get\<close> and no write for \<open>set\<close>, and nothing is logged about it.
\<close>

theorem distributed_tier_failures_degrade:
  "(gr_value (cacheGet c f now key fetch options st) = Inl e \<longrightarrow> fetch = Inl e)
   \<and> (lookupMemory f (mergeOptions defaultOptions options) now key st = None
        \<and> \<not> flag (skipRedis (mergeOptions defaultOptions options)) \<and> redisAvailable st
        \<and> redisGetFails f = None
        \<and> redisGet now key (redis st) = Some s \<and> s \<noteq> [] \<and> parse c s = None \<longrightarrow>
      gr_value (cacheGet c f now key fetch options st) = fetch
      \<and> gr_fetched (cacheGet c f now key fetch options st)
      \<and> (LWarn, ''Redis cache value parse failed, invalidating'', [(''key'', JStr key)])
           \<in> set (gr_logs (cacheGet c f now key fetch options st))
      \<and> (redisDelFails f = None \<longrightarrow>
           redis (gr_state (cacheGet c f now key fetch options st)) key = None
           \<or> (\<exists>fresh s'. fetch = Inr fresh \<and> stringify c fresh = Inr s'
                 \<and> redis (gr_state (cacheGet c f now key fetch options st)) key
                     = Some (s', now + ttlOr (redisTTL (mergeOptions defaultOptions options)) 3600
                                        * 1000)))
      \<and> (redisDelFails f \<noteq> None \<longrightarrow>
           (LWarn, ''Failed to delete corrupted cache entry'', [(''key'', JStr key)])
             \<in> set (gr_logs (cacheGet c f now key fetch options st))))
   \<and> (lookupMemory f (mergeOptions defaultOptions options) now key st = None
        \<and> \<not> flag (skipRedis (mergeOptions defaultOptions options)) \<and> redisAvailable st
        \<and> redisGetFails f = None \<and> redisGet now key (redis st) = Some [] \<longrightarrow>
      gr_value (cacheGet c f now key fetch options st) = fetch
      \<and> gr_fetched (cacheGet c f now key fetch options st)
      \<and> lookupRedis c f (mergeOptions defaultOptions options) now key st = (None, [], st))
   \<and> (lookupMemory f (mergeOptions defaultOptions options) now key st = None
        \<and> \<not> flag (skipRedis (mergeOptions defaultOptions options)) \<and> redisAvailable st
        \<and> redisGetFails f = Some e' \<longrightarrow>
      gr_value (cacheGet c f now key fetch options st) = fetch
      \<and> gr_fetched (cacheGet c f now key fetch options st)
      \<and> (LWarn, ''Redis get failed, falling back to fetch'',
          [(''key'', JStr key), (''error'', JStr e')])
           \<in> set (gr_logs (cacheGet c f now key fetch options st)))
   \<and> (lookupMemory f (mergeOptions defaultOptions options) now key st = None
        \<and> \<not> redisAvailable st \<longrightarrow>
      gr_value (cacheGet c f now key fetch options st) = fetch
      \<and> gr_fetched (cacheGet c f now key fetch options st)
      \<and> redis (gr_state (cacheGet c f now key fetch options st)) = redis st
      \<and> (\<forall>l \<in> set (gr_logs (cacheGet c f now key fetch options st)).
            fst (snd l) = ''Memory cache set failed during fetch''))
   \<and> (\<not> flag (skipRedis (mergeOptions defaultOptions options)) \<and> redisAvailable st
        \<and> (stringify c v = Inl e'
            \<or> (\<exists>s. stringify c v = Inr s
                   \<and> (redisSetexThrows f = Some e'
                       \<or> redisSetexThrows f = None \<and> redisSetexRejects f = Some e'))) \<longrightarrow>
      redis (snd (cacheSet c f now key v options st)) = redis st
      \<and> (\<exists>msg. (LWarn, msg, [(''key'', JStr key), (''error'', JStr e')])
                  \<in> set (fst (cacheSet c f now key v options st))))
   \<and> (\<not> redisAvailable st \<longrightarrow>
      redis (snd (cacheSet c f now key v options st)) = redis st
      \<and> (\<forall>l \<in> set (fst (cacheSet c f now key v options st)).
            fst (snd l) = ''Memory cache set failed''))"
proof (intro conjI impI)
  assume "gr_value (cacheGet c f now key fetch options st) = Inl e"
  then show "fetch = Inl e" by (rule cacheGet_error_from_fetch)
next
  assume h: "lookupMemory f (mergeOptions defaultOptions options) now key st = None
        \<and> \<not> flag (skipRedis (mergeOptions defaultOptions options)) \<and> redisAvailable st
        \<and> redisGetFails f = None
        \<and> redisGet now key (redis st) = Some s \<and> s \<noteq> [] \<and> parse c s = None"
  then have h': "lookupMemory f (mergeOptions defaultOptions options) now key st = None"
    "\<not> flag (skipRedis (mergeOptions defaultOptions options))" "redisAvailable st"
    "redisGetFails f = None" "redisGet now key (redis st) = Some s" "s \<noteq> []" "parse c s = None"
    by simp_all
  show "gr_value (cacheGet c f now key fetch options st) = fetch"
    by (rule cacheGet_corrupt_entry(1) [OF h'])
  show "gr_fetched (cacheGet c f now key fetch options st)"
    by (rule cacheGet_corrupt_entry(2) [OF h'])
  show "(LWarn, ''Redis cache value parse failed, invalidating'', [(''key'', JStr key)])
           \<in> set (gr_logs (cacheGet c f now key fetch options st))"
    by (rule cacheGet_corrupt_entry(3) [OF h'])
  assume "redisDelFails f = None"
  then show "redis (gr_state (cacheGet c f now key fetch options st)) key = None
           \<or> (\<exists>fresh s'. fetch = Inr fresh \<and> stringify c fresh = Inr s'
                 \<and> redis (gr_state (cacheGet c f now key fetch options st)) key
                     = Some (s', now + ttlOr (redisTTL (mergeOptions defaultOptions options)) 3600
                                        * 1000))"
    by (rule cacheGet_corrupt_entry(4) [OF h'])
next
  assume h: "lookupMemory f (mergeOptions defaultOptions options) now key st = None
        \<and> \<not> flag (skipRedis (mergeOptions defaultOptions options)) \<and> redisAvailable st
        \<and> redisGetFails f = None
        \<and> redisGet now key (redis st) = Some s \<and> s \<noteq> [] \<and> parse c s = None"
  then have h': "lookupMemory f (mergeOptions defaultOptions options) now key st = None"
    "\<not> flag (skipRedis (mergeOptions defaultOptions options))" "redisAvailable st"
    "redisGetFails f = None" "redisGet now key (redis st) = Some s" "s \<noteq> []" "parse c s = None"
    by simp_all
  assume "redisDelFails f \<noteq> None"
  then show "(LWarn, ''Failed to delete corrupted cache entry'', [(''key'', JStr key)])
             \<in> set (gr_logs (cacheGet c f now key fetch options st))"
    by (rule cacheGet_corrupt_del_fails [OF h'])
next
  assume h: "lookupMemory f (mergeOptions defaultOptions options) now key st = None
        \<and> \<not> flag (skipRedis (mergeOptions defaultOptions options)) \<and> redisAvailable st
        \<and> redisGetFails f = None \<and> redisGet now key (redis st) = Some []"
  then have h': "lookupMemory f (mergeOptions defaultOptions options) now key st = None"
    "\<not> flag (skipRedis (mergeOptions defaultOptions options))" "redisAvailable st"
    "redisGetFails f = None" "redisGet now key (redis st) = Some []"
    by simp_all
  show "gr_value (cacheGet c f now key fetch options st) = fetch"
    by (rule cacheGet_empty_entry(1) [OF h'])
  show "gr_fetched (cacheGet c f now key fetch options st)"
    by (rule cacheGet_empty_entry(2) [OF h'])
  show "lookupRedis c f (mergeOptions defaultOptions options) now key st = (None, [], st)"
    by (rule lookupRedis_empty [OF h'(2-5)])
next
  assume h: "lookupMemory f (mergeOptions defaultOptions options) now key st = None
        \<and> \<not> flag (skipRedis (mergeOptions defaultOptions options)) \<and> redisAvailable st
        \<and> redisGetFails f = Some e'"
  then have h': "lookupMemory f (mergeOptions defaultOptions options) now key st = None"
    "\<not> flag (skipRedis (mergeOptions defaultOptions options))" "redisAvailable st"
    "redisGetFails f = Some e'"
    by simp_all
  show "gr_value (cacheGet c f now key fetch options st) = fetch"
    by (rule cacheGet_command_failure(1) [OF h'])
  show "gr_fetched (cacheGet c f now key fetch options st)"
    by (rule cacheGet_command_failure(2) [OF h'])
  show "(LWarn, ''Redis get failed, falling back to fetch'',
          [(''key'', JStr key), (''error'', JStr e')])
           \<in> set (gr_logs (cacheGet c f now key fetch options st))"
    by (rule cacheGet_command_failure(3) [OF h'])
next
  assume h: "lookupMemory f (mergeOptions defaultOptions options) now key st = None
        \<and> \<not> redisAvailable st"
  then have h': "lookupMemory f (mergeOptions defaultOptions options) now key st = None"
    "\<not> redisAvailable st"
    by simp_all
  show "gr_value (cacheGet c f now key fetch options st) = fetch"
    by (rule cacheGet_unavailable(1) [OF h'])
  show "gr_fetched (cacheGet c f now key fetch options st)"
    by (rule cacheGet_unavailable(2) [OF h'])
  show "redis (gr_state (cacheGet c f now key fetch options st)) = redis st"
    by (rule cacheGet_unavailable(3) [OF h'])
  show "\<forall>l \<in> set (gr_logs (cacheGet c f now key fetch options st)).
            fst (snd l) = ''Memory cache set failed during fetch''"
    by (rule cacheGet_unavailable(4) [OF h'])
next
  assume h: "\<not> flag (skipRedis (mergeOptions defaultOptions options)) \<and> redisAvailable st
        \<and> (stringify c v = Inl e'
            \<or> (\<exists>s. stringify c v = Inr s
                   \<and> (redisSetexThrows f = Some e'
                       \<or> redisSetexThrows f = None \<and> redisSetexRejects f = Some e')))"
  then have h': "\<not> flag (skipRedis (mergeOptions defaultOptions options))" "redisAvailable st"
    "stringify c v = Inl e'
            \<or> (\<exists>s. stringify c v = Inr s
                   \<and> (redisSetexThrows f = Some e'
                       \<or> redisSetexThrows f = None \<and> redisSetexRejects f = Some e'))"
    by simp_all
  show "redis (snd (cacheSet c f now key v options st)) = redis st"
    by (rule cacheSet_redis_failure(1) [OF h'])
  show "\<exists>msg. (LWarn, msg, [(''key'', JStr key), (''error'', JStr e')])
                  \<in> set (fst (cacheSet c f now key v options st))"
    by (rule cacheSet_redis_failure(2) [OF h'])
next
  assume h: "\<not> redisAvailable st"
  show "redis (snd (cacheSet c f now key v options st)) = redis st"
    by (rule cacheSet_unavailable(1) [OF h])
  show "\<forall>l \<in> set (fst (cacheSet c f now key v options st)).
            fst (snd l) = ''Memory cache set failed''"
    by (rule cacheSet_unavailable(2) [OF h])
qed

text \<open>
  C6 as specified asks for a warning-level log when the distributed tier is unavailable,
  and has every stored value that does not decode deleted. The code logs nothing in a
  \<open>get\<close> and in a \<open>set\<close> with the tier down; it reads a stored empty string, which
  does not decode, as a miss, with no warning and no \<open>del\<close>; and when the \<open>del\<close>
  itself fails, the corrupted entry stays.
\<close>

theorem unavailable_tier_is_skipped_without_log:
  "gr_logs (cacheGet \<lparr>stringify = (\<lambda>v. Inr v), parse = (\<lambda>s. if s = [] \<or> s = ''{bad'' then None else Some s)\<rparr> noFaults 1000 ''product:1''
       (Inr ''apple'' :: string + string) \<lparr>memoryTTL = None, redisTTL = None, skipMemory = None, skipRedis = None\<rparr> \<lparr>memoryCache = Map.empty, redis = Map.empty, redisAvailable = False\<rparr>) = []
   \<and> fst (cacheSet \<lparr>stringify = (\<lambda>v. Inr v), parse = (\<lambda>s. if s = [] \<or> s = ''{bad'' then None else Some s)\<rparr> noFaults 1000 ''product:1'' ''apple'' \<lparr>memoryTTL = None, redisTTL = None, skipMemory = None, skipRedis = None\<rparr> \<lparr>memoryCache = Map.empty, redis = Map.empty, redisAvailable = False\<rparr>) = []
   \<and> parse \<lparr>stringify = (\<lambda>v. Inr v), parse = (\<lambda>s. if s = [] \<or> s = ''{bad'' then None else Some s)\<rparr> [] = None
   \<and> gr_logs (cacheGet \<lparr>stringify = (\<lambda>v. Inr v), parse = (\<lambda>s. if s = [] \<or> s = ''{bad'' then None else Some s)\<rparr> noFaults 1000 ''product:1''
       (Inr ''apple'' :: string + string) \<lparr>memoryTTL = None, redisTTL = None, skipMemory = None, skipRedis = None\<rparr> \<lparr>memoryCache = Map.empty, redis = [''product:1'' \<mapsto> ([], 5000)], redisAvailable = True\<rparr>) = []
   \<and> lookupRedis \<lparr>stringify = (\<lambda>v. Inr v), parse = (\<lambda>s. if s = [] \<or> s = ''{bad'' then None else Some s)\<rparr> noFaults (mergeOptions defaultOptions \<lparr>memoryTTL = None, redisTTL = None, skipMemory = None, skipRedis = None\<rparr>) 1000 ''product:1'' \<lparr>memoryCache = Map.empty, redis = [''product:1'' \<mapsto> ([], 5000)], redisAvailable = True\<rparr>
       = (None, [], \<lparr>memoryCache = Map.empty, redis = [''product:1'' \<mapsto> ([], 5000)], redisAvailable = True\<rparr>)
   \<and> gr_value (cacheGet \<lparr>stringify = (\<lambda>v. Inr v), parse = (\<lambda>s. if s = [] \<or> s = ''{bad'' then None else Some s)\<rparr> (noFaults\<lparr>redisDelFails := Some ''ECONNRESET'', redisSetexRejects := Some ''ECONNRESET''\<rparr>) 1000 ''product:1''
       (Inr ''apple'' :: string + string) \<lparr>memoryTTL = None, redisTTL = None, skipMemory = None, skipRedis = None\<rparr> \<lparr>memoryCache = Map.empty, redis = [''product:1'' \<mapsto> (''{bad'', 5000)], redisAvailable = True\<rparr>) = Inr ''apple''
   \<and> redis (gr_state (cacheGet \<lparr>stringify = (\<lambda>v. Inr v), parse = (\<lambda>s. if s = [] \<or> s = ''{bad'' then None else Some s)\<rparr> (noFaults\<lparr>redisDelFails := Some ''ECONNRESET'', redisSetexRejects := Some ''ECONNRESET''\<rparr>) 1000 ''product:1''
       (Inr ''apple'' :: string + string) \<lparr>memoryTTL = None, redisTTL = None, skipMemory = None, skipRedis = None\<rparr> \<lparr>memoryCache = Map.empty, redis = [''product:1'' \<mapsto> (''{bad'', 5000)], redisAvailable = True\<rparr>)) ''product:1'' = Some (''{bad'', 5000)"
  by (simp add: cacheGet_def cacheSet_def lookupMemory_def lookupRedis_def storeRedis_def
        storeMemory_def nodeGet_def redisGet_def noFaults_def mergeOptions_def defaultOptions_def
        orDefault_def flag_def Let_def)

theorem distributed_tier_failures_degrade_witness:
  "gr_value (cacheGet \<lparr>stringify = (\<lambda>v. Inr v), parse = (\<lambda>s. if s = ''{bad'' then None else Some s)\<rparr> noFaults 1000 ''product:1'' (Inr ''apple'' :: string + string) \<lparr>memoryTTL = None, redisTTL = None, skipMemory = None, skipRedis = None\<rparr> \<lparr>memoryCache = Map.empty, redis = [''product:1'' \<mapsto> (''{bad'', 5000)], redisAvailable = True\<rparr>) = Inr ''apple''
   \<and> gr_fetched (cacheGet \<lparr>stringify = (\<lambda>v. Inr v), parse = (\<lambda>s. if s = ''{bad'' then None else Some s)\<rparr> noFaults 1000 ''product:1'' (Inr ''apple'' :: string + string) \<lparr>memoryTTL = None, redisTTL = None, skipMemory = None, skipRedis = None\<rparr> \<lparr>memoryCache = Map.empty, redis = [''product:1'' \<mapsto> (''{bad'', 5000)], redisAvailable = True\<rparr>)
   \<and> gr_logs (cacheGet \<lparr>stringify = (\<lambda>v. Inr v), parse = (\<lambda>s. if s = ''{bad'' then None else Some s)\<rparr> noFaults 1000 ''product:1'' (Inr ''apple'' :: string + string) \<lparr>memoryTTL = None, redisTTL = None, skipMemory = None, skipRedis = None\<rparr> \<lparr>memoryCache = Map.empty, redis = [''product:1'' \<mapsto> (''{bad'', 5000)], redisAvailable = True\<rparr>) =
       [(LWarn, ''Redis cache value parse failed, invalidating'', [(''key'', JStr ''product:1'')])]
   \<and> redis (gr_state (cacheGet \<lparr>stringify = (\<lambda>v. Inr v), parse = (\<lambda>s. if s = ''{bad'' then None else Some s)\<rparr> noFaults 1000 ''product:1'' (Inr ''apple'' :: string + string) \<lparr>memoryTTL = None, redisTTL = None, skipMemory = None, skipRedis = None\<rparr> \<lparr>memoryCache = Map.empty, redis = [''product:1'' \<mapsto> (''{bad'', 5000)], redisAvailable = True\<rparr>)) ''product:1'' = Some (''apple'', 3601000)
   \<and> gr_value (cacheGet \<lparr>stringify = (\<lambda>v. Inr v), parse = (\<lambda>s. if s = ''{bad'' then None else Some s)\<rparr> (noFaults\<lparr>redisGetFails := Some ''ETIMEDOUT''\<rparr>) 1000 ''product:1'' (Inr ''apple'' :: string + string) \<lparr>memoryTTL = None, redisTTL = None, skipMemory = None, skipRedis = None\<rparr> \<lparr>memoryCache = Map.empty, redis = [''product:1'' \<mapsto> (''{bad'', 5000)], redisAvailable = True\<rparr>) = Inr ''apple''
   \<and> gr_logs (cacheGet \<lparr>stringify = (\<lambda>v. Inr v), parse = (\<lambda>s. if s = ''{bad'' then None else Some s)\<rparr> (noFaults\<lparr>redisGetFails := Some ''ETIMEDOUT''\<rparr>) 1000 ''product:1'' (Inr ''apple'' :: string + string) \<lparr>memoryTTL = None, redisTTL = None, skipMemory = None, skipRedis = None\<rparr> \<lparr>memoryCache = Map.empty, redis = [''product:1'' \<mapsto> (''{bad'', 5000)], redisAvailable = True\<rparr>) =
       [(LWarn, ''Redis get failed, falling back to fetch'',
         [(''key'', JStr ''product:1''), (''error'', JStr ''ETIMEDOUT'')])]
   \<and> redis (snd (cacheSet \<lparr>stringify = (\<lambda>v. Inr v), parse = (\<lambda>s. if s = ''{bad'' then None else Some s)\<rparr> (noFaults\<lparr>redisSetexRejects := Some ''ECONNRESET''\<rparr>) 1000 ''product:1'' ''apple'' \<lparr>memoryTTL = None, redisTTL = None, skipMemory = None, skipRedis = None\<rparr> \<lparr>memoryCache = Map.empty, redis = [''product:1'' \<mapsto> (''{bad'', 5000)], redisAvailable = True\<rparr>)) ''product:1'' = Some (''{bad'', 5000)
   \<and> fst (cacheSet \<lparr>stringify = (\<lambda>v. Inr v), parse = (\<lambda>s. if s = ''{bad'' then None else Some s)\<rparr> (noFaults\<lparr>redisSetexRejects := Some ''ECONNRESET''\<rparr>) 1000 ''product:1'' ''apple'' \<lparr>memoryTTL = None, redisTTL = None, skipMemory = None, skipRedis = None\<rparr> \<lparr>memoryCache = Map.empty, redis = [''product:1'' \<mapsto> (''{bad'', 5000)], redisAvailable = True\<rparr>) =
       [(LWarn, ''Redis set failed'',
         [(''key'', JStr ''product:1''), (''error'', JStr ''ECONNRESET'')])]"
  using
    distributed_tier_failures_degrade [where c = "\<lparr>stringify = (\<lambda>v. Inr v), parse = (\<lambda>s. if s = ''{bad'' then None else Some s)\<rparr>" and f = noFaults and now = 1000
      and key = "''product:1''" and fetch = "Inr ''apple'' :: string + string"
      and options = "\<lparr>memoryTTL = None, redisTTL = None, skipMemory = None, skipRedis = None\<rparr>" and st = "\<lparr>memoryCache = Map.empty, redis = [''product:1'' \<mapsto> (''{bad'', 5000)], redisAvailable = True\<rparr>" and s = "''{bad''" and v = "''apple''"]
    distributed_tier_failures_degrade [where c = "\<lparr>stringify = (\<lambda>v. Inr v), parse = (\<lambda>s. if s = ''{bad'' then None else Some s)\<rparr>" and f = "(noFaults\<lparr>redisGetFails := Some ''ETIMEDOUT''\<rparr>)" and now = 1000
      and key = "''product:1''" and fetch = "Inr ''apple'' :: string + string"
      and options = "\<lparr>memoryTTL = None, redisTTL = None, skipMemory = None, skipRedis = None\<rparr>" and st = "\<lparr>memoryCache = Map.empty, redis = [''product:1'' \<mapsto> (''{bad'', 5000)], redisAvailable = True\<rparr>" and e' = "''ETIMEDOUT''" and v = "''apple''"]
    distributed_tier_failures_degrade [where c = "\<lparr>stringify = (\<lambda>v. Inr v), parse = (\<lambda>s. if s = ''{bad'' then None else Some s)\<rparr>" and f = "(noFaults\<lparr>redisSetexRejects := Some ''ECONNRESET''\<rparr>)" and now = 1000
      and key = "''product:1''" and fetch = "Inr ''apple'' :: string + string"
      and options = "\<lparr>memoryTTL = None, redisTTL = None, skipMemory = None, skipRedis = None\<rparr>" and st = "\<lparr>memoryCache = Map.empty, redis = [''product:1'' \<mapsto> (''{bad'', 5000)], redisAvailable = True\<rparr>" and e' = "''ECONNRESET''" and v = "''apple''"]
  by (simp add: cacheGet_def cacheSet_def lookupMemory_def lookupRedis_def storeRedis_def
        storeMemory_def nodeGet_def nodeSet_def redisGet_def redisSetex_def noFaults_def
        mergeOptions_def defaultOptions_def orDefault_def flag_def ttlOr_def Let_def)


section \<open>Properties of the rate limiter\<close>

lemma failOpen_allowed: "allowed (fst (failOpen now config e l st))"
  by (simp add: failOpen_def)

lemma checkRateLimit_get_fails:
  assumes "cacheServiceGet key (Inr \<lparr>count = 0, resetAt = now + windowSeconds config * 1000\<rparr>)
             \<lparr>memoryTTL = Some (windowSeconds config), redisTTL = Some (windowSeconds config),
              skipMemory = None, skipRedis = None\<rparr> st = (Inl e, l1, st1)"
  shows "checkRateLimit cacheServiceGet cacheServiceSet now key config st =
           (\<lparr>allowed = True, remaining = maxRequests config,
             windowResetAt = now + windowSeconds config * 1000\<rparr>,
            l1 @ [(LError, ''Rate limit check failed'', [(''error'', JStr e)])], st1)"
  using assms by (simp add: checkRateLimit_def Let_def failOpen_def)

lemma checkRateLimit_set_fails:
  assumes "cacheServiceGet key (Inr \<lparr>count = 0, resetAt = now + windowSeconds config * 1000\<rparr>)
             \<lparr>memoryTTL = Some (windowSeconds config), redisTTL = Some (windowSeconds config),
              skipMemory = None, skipRedis = None\<rparr> st = (Inr cached, l1, st1)"
    and "cacheServiceSet key
             (if resetAt cached \<le> now
              then \<lparr>count = 1, resetAt = now + windowSeconds config * 1000\<rparr>
              else \<lparr>count = count cached + 1, resetAt = resetAt cached\<rparr>)
             \<lparr>memoryTTL = Some (windowSeconds config), redisTTL = Some (windowSeconds config),
              skipMemory = None, skipRedis = None\<rparr> st1 = (Inl e, l2, st2)"
  shows "checkRateLimit cacheServiceGet cacheServiceSet now key config st =
           (\<lparr>allowed = True, remaining = maxRequests config,
             windowResetAt = now + windowSeconds config * 1000\<rparr>,
            l1 @ l2 @ [(LError, ''Rate limit check failed'', [(''error'', JStr e)])], st2)"
  using assms by (simp add: checkRateLimit_def Let_def failOpen_def split: if_splits)

lemma checkRateLimit_ok:
  assumes "cacheServiceGet key (Inr \<lparr>count = 0, resetAt = now + windowSeconds config * 1000\<rparr>)
             \<lparr>memoryTTL = Some (windowSeconds config), redisTTL = Some (windowSeconds config),
              skipMemory = None, skipRedis = None\<rparr> st = (Inr cached, l1, st1)"
    and "cacheServiceSet key
             (if resetAt cached \<le> now
              then \<lparr>count = 1, resetAt = now + windowSeconds config * 1000\<rparr>
              else \<lparr>count = count cached + 1, resetAt = resetAt cached\<rparr>)
             \<lparr>memoryTTL = Some (windowSeconds config), redisTTL = Some (windowSeconds config),
              skipMemory = None, skipRedis = None\<rparr> st1 = (Inr u, l2, st2)"
  shows "checkRateLimit cacheServiceGet cacheServiceSet now key config st =
           (if resetAt cached \<le> now
            then \<lparr>allowed = True, remaining = maxRequests config - 1,
                  windowResetAt = now + windowSeconds config * 1000\<rparr>
            else \<lparr>allowed = (count cached + 1 \<le> maxRequests config),
                  remaining = max 0 (maxRequests config - (count cached + 1)),
                  windowResetAt = resetAt cached\<rparr>,
            l1 @ l2, st2)"
  using assms by (simp add: checkRateLimit_def Let_def split: if_splits)

lemma rateLimit_allowed_proceeds:
  assumes "allowed (fst (checkRateLimit cacheServiceGet cacheServiceSet now
                           (generateRateLimitKey config req) config st))"
  shows "fst (snd (snd (rateLimit cacheServiceGet cacheServiceSet toISOString now now2 config req
                           next st))) = Proceed next"
  using assms by (simp add: rateLimit_def Let_def split_beta)

text \<open>
  C8. When the cache service throws, in the \<open>get\<close> or in the \<open>set\<close> of a check, the
  check resolves normally with \<open>allowed = true\<close> (and \<open>remaining = maxRequests\<close>, a
  fresh window), and the error is logged at error level. Whenever a check allows, the
  middleware calls \<open>next()\<close>: nothing of the failure reaches the client.
\<close>

theorem checkRateLimit_fails_open:
  "(cacheServiceGet key (Inr \<lparr>count = 0, resetAt = now + windowSeconds config * 1000\<rparr>)
       \<lparr>memoryTTL = Some (windowSeconds config), redisTTL = Some (windowSeconds config),
        skipMemory = None, skipRedis = None\<rparr> st = (Inl e, l1, st1) \<longrightarrow>
      checkRateLimit cacheServiceGet cacheServiceSet now key config st =
        (\<lparr>allowed = True, remaining = maxRequests config,
          windowResetAt = now + windowSeconds config * 1000\<rparr>,
         l1 @ [(LError, ''Rate limit check failed'', [(''error'', JStr e)])], st1))
   \<and> (cacheServiceGet key (Inr \<lparr>count = 0, resetAt = now + windowSeconds config * 1000\<rparr>)
         \<lparr>memoryTTL = Some (windowSeconds config), redisTTL = Some (windowSeconds config),
          skipMemory = None, skipRedis = None\<rparr> st = (Inr cached, l1, st1)
       \<and> cacheServiceSet key
            (if resetAt cached \<le> now
             then \<lparr>count = 1, resetAt = now + windowSeconds config * 1000\<rparr>
             else \<lparr>count = count cached + 1, resetAt = resetAt cached\<rparr>)
            \<lparr>memoryTTL = Some (windowSeconds config), redisTTL = Some (windowSeconds config),
             skipMemory = None, skipRedis = None\<rparr> st1 = (Inl e, l2, st2) \<longrightarrow>
      checkRateLimit cacheServiceGet cacheServiceSet now key config st =
        (\<lparr>allowed = True, remaining = maxRequests config,
          windowResetAt = now + windowSeconds config * 1000\<rparr>,
         l1 @ l2 @ [(LError, ''Rate limit check failed'', [(''error'', JStr e)])], st2))
   \<and> (allowed (fst (checkRateLimit cacheServiceGet cacheServiceSet now
                       (generateRateLimitKey config req) config st)) \<longrightarrow>
      fst (snd (snd (rateLimit cacheServiceGet cacheServiceSet toISOString now now2 config req
                       next st))) = Proceed next)"
  using checkRateLimit_get_fails [of cacheServiceGet key now config st e l1 st1 cacheServiceSet]
    checkRateLimit_set_fails [of cacheServiceGet key now config st cached l1 st1 cacheServiceSet
      e l2 st2]
    rateLimit_allowed_proceeds [of cacheServiceGet cacheServiceSet now config req st toISOString
      now2 "next"]
  by blast


theorem checkRateLimit_fails_open_witness:
  "checkRateLimit (\<lambda>k fetch opts s. (Inl ''cache down'', [], s)) (\<lambda>k v opts s. (Inr (), [], s)) 1000 ''ratelimit:auth:10.0.0.1'' authRateLimit ()
     = (\<lparr>allowed = True, remaining = 5, windowResetAt = 901000\<rparr>,
        [(LError, ''Rate limit check failed'', [(''error'', JStr ''cache down'')])], ())
   \<and> fst (snd (snd (rateLimit (\<lambda>k fetch opts s. (Inl ''cache down'', [], s)) (\<lambda>k v opts s. (Inr (), [], s)) (\<lambda>t. ''date'') 1000 1000 authRateLimit
        \<lparr>headers = Map.empty, query = Map.empty, url = Some ''/api/auth/login'', httpMethod = Some ''POST'', remoteAddress = Some ''10.0.0.1''\<rparr> ''handled'' ())))
     = Proceed ''handled''"
  using
    checkRateLimit_fails_open [where cacheServiceGet = "(\<lambda>k fetch opts s. (Inl ''cache down'', [], s))" and cacheServiceSet = "(\<lambda>k v opts s. (Inr (), [], s))"
      and now = 1000 and key = "''ratelimit:auth:10.0.0.1''" and config = authRateLimit
      and st = "()" and e = "''cache down''" and ?l1.0 = "[]" and ?st1.0 = "()"
      and req = "\<lparr>headers = Map.empty, query = Map.empty, url = Some ''/api/auth/login'', httpMethod = Some ''POST'', remoteAddress = Some ''10.0.0.1''\<rparr>" and toISOString = "\<lambda>t. ''date''" and ?now2.0 = 1000
      and ?next = "''handled''"]
  by (simp add: authRateLimit_def checkRateLimit_def failOpen_def)


lemma serviceGet_Inr:
  "\<exists>cached. gr_value (cacheGet c f now key (Inr d :: string + RateLimitData) options st) = Inr cached"
proof (cases "gr_value (cacheGet c f now key (Inr d :: string + RateLimitData) options st)")
  case (Inl e)
  then have "(Inr d :: string + RateLimitData) = Inl e" by (rule cacheGet_error_from_fetch)
  then show ?thesis by simp
next
  case (Inr x)
  then show ?thesis by simp
qed

lemma checkRateLimitCached_eq:
  assumes "gr_value (cacheGet c fg now key
                       (Inr \<lparr>count = 0, resetAt = now + windowSeconds config * 1000\<rparr> :: string + RateLimitData)
                       (windowOptions config) st) = Inr cached"
  shows "checkRateLimitCached c fg fs now key config st =
           (\<lparr>allowed = (count (nextData now config cached) \<le> maxRequests config \<or> resetAt cached \<le> now),
             remaining = (if resetAt cached \<le> now then maxRequests config - 1
                          else max 0 (maxRequests config - count (nextData now config cached))),
             windowResetAt = resetAt (nextData now config cached)\<rparr>,
            gr_logs (cacheGet c fg now key
                       (Inr \<lparr>count = 0, resetAt = now + windowSeconds config * 1000\<rparr> :: string + RateLimitData)
                       (windowOptions config) st)
            @ fst (cacheSet c fs now key (nextData now config cached) (windowOptions config)
                     (gr_state (cacheGet c fg now key
                       (Inr \<lparr>count = 0, resetAt = now + windowSeconds config * 1000\<rparr> :: string + RateLimitData)
                       (windowOptions config) st))),
            snd (cacheSet c fs now key (nextData now config cached) (windowOptions config)
                     (gr_state (cacheGet c fg now key
                       (Inr \<lparr>count = 0, resetAt = now + windowSeconds config * 1000\<rparr> :: string + RateLimitData)
                       (windowOptions config) st))))"
proof -
  have "checkRateLimitCached c fg fs now key config st =
           (if resetAt cached \<le> now
            then \<lparr>allowed = True, remaining = maxRequests config - 1,
                  windowResetAt = now + windowSeconds config * 1000\<rparr>
            else \<lparr>allowed = (count cached + 1 \<le> maxRequests config),
                  remaining = max 0 (maxRequests config - (count cached + 1)),
                  windowResetAt = resetAt cached\<rparr>,
            gr_logs (cacheGet c fg now key
                       (Inr \<lparr>count = 0, resetAt = now + windowSeconds config * 1000\<rparr> :: string + RateLimitData)
                       (windowOptions config) st)
            @ fst (cacheSet c fs now key (nextData now config cached) (windowOptions config)
                     (gr_state (cacheGet c fg now key
                       (Inr \<lparr>count = 0, resetAt = now + windowSeconds config * 1000\<rparr> :: string + RateLimitData)
                       (windowOptions config) st))),
            snd (cacheSet c fs now key (nextData now config cached) (windowOptions config)
                     (gr_state (cacheGet c fg now key
                       (Inr \<lparr>count = 0, resetAt = now + windowSeconds config * 1000\<rparr> :: string + RateLimitData)
                       (windowOptions config) st))))"
    unfolding checkRateLimitCached_def
    by (rule checkRateLimit_ok [where u = "()"])
       (simp_all add: serviceGet_def serviceSet_def Let_def split_beta assms)
  then show ?thesis by (simp split: if_splits)
qed

lemma windowTTL:
  "windowSeconds config \<noteq> 0 \<Longrightarrow>
     ttlOr (memoryTTL (mergeOptions defaultOptions (windowOptions config))) 300 = windowSeconds config"
  by (simp add: mergeOptions_def orDefault_def ttlOr_def)

lemma check_hit:
  assumes mem: "memoryCache st key = Some (d, e)" and vis: "now \<le> e"
    and g: "\<not> memoryGetThrows fg" and s: "memorySetThrows fs = None"
    and inw: "now < resetAt d" and w: "windowSeconds config \<noteq> 0"
  shows "fst (checkRateLimitCached c fg fs now key config st) =
           \<lparr>allowed = (count d + 1 \<le> maxRequests config),
            remaining = max 0 (maxRequests config - (count d + 1)),
            windowResetAt = resetAt d\<rparr>"
    and "memoryCache (snd (snd (checkRateLimitCached c fg fs now key config st))) key =
           Some (\<lparr>count = count d + 1, resetAt = resetAt d\<rparr>, now + windowSeconds config * 1000)"
proof -
  have hit: "cacheGet c fg now key
               (Inr \<lparr>count = 0, resetAt = now + windowSeconds config * 1000\<rparr> :: string + RateLimitData)
               (windowOptions config) st
             = \<lparr>gr_value = Inr d, gr_fetched = False, gr_logs = [], gr_state = st\<rparr>"
    by (rule cacheGet_memory_hit [OF _ g mem vis]) simp
  have v: "gr_value (cacheGet c fg now key
               (Inr \<lparr>count = 0, resetAt = now + windowSeconds config * 1000\<rparr> :: string + RateLimitData)
               (windowOptions config) st) = Inr d"
    by (simp add: hit)
  note eq = checkRateLimitCached_eq [OF v, of fs]
  show "fst (checkRateLimitCached c fg fs now key config st) =
           \<lparr>allowed = (count d + 1 \<le> maxRequests config),
            remaining = max 0 (maxRequests config - (count d + 1)),
            windowResetAt = resetAt d\<rparr>"
    using inw by (simp add: eq)
  have "memoryCache (snd (cacheSet c fs now key \<lparr>count = count d + 1, resetAt = resetAt d\<rparr>
                            (windowOptions config) st)) key
          = Some (\<lparr>count = count d + 1, resetAt = resetAt d\<rparr>, now + windowSeconds config * 1000)"
    using cacheSet_memory [of "windowOptions config" fs c now key
        "\<lparr>count = count d + 1, resetAt = resetAt d\<rparr>" st] s windowTTL [OF w]
    by simp
  then show "memoryCache (snd (snd (checkRateLimitCached c fg fs now key config st))) key =
           Some (\<lparr>count = count d + 1, resetAt = resetAt d\<rparr>, now + windowSeconds config * 1000)"
    using inw by (simp add: eq hit)
qed

lemma lookupRedis_none:
  "redisGet now key (redis st) = None \<Longrightarrow> \<exists>l. lookupRedis c f opts now key st = (None, l, st)"
  by (simp add: lookupRedis_def split: option.splits)

lemma check_fresh:
  assumes m: "nodeGet now key (memoryCache st) = None"
    and r: "redisGet now key (redis st) = None"
    and s: "memorySetThrows fs = None" and w: "0 < windowSeconds config"
  shows "fst (checkRateLimitCached c fg fs now key config st) =
           \<lparr>allowed = (1 \<le> maxRequests config),
            remaining = max 0 (maxRequests config - 1),
            windowResetAt = now + windowSeconds config * 1000\<rparr>"
    and "memoryCache (snd (snd (checkRateLimitCached c fg fs now key config st))) key =
           Some (\<lparr>count = 1, resetAt = now + windowSeconds config * 1000\<rparr>,
                 now + windowSeconds config * 1000)"
proof -
  let ?opts = "mergeOptions defaultOptions (windowOptions config)"
  let ?d0 = "\<lparr>count = 0, resetAt = now + windowSeconds config * 1000\<rparr>"
  let ?G = "cacheGet c fg now key (Inr ?d0 :: string + RateLimitData) (windowOptions config) st"
  have miss: "lookupMemory fg ?opts now key st = None"
    using m by (simp add: lookupMemory_def)
  obtain l where lr: "lookupRedis c fg ?opts now key st = (None, l, st)"
    using lookupRedis_none [OF r] by blast
  have v: "gr_value ?G = Inr ?d0"
    by (rule cacheGet_miss(1) [OF miss lr])
  note eq = checkRateLimitCached_eq [OF v, of fs]
  show "fst (checkRateLimitCached c fg fs now key config st) =
           \<lparr>allowed = (1 \<le> maxRequests config),
            remaining = max 0 (maxRequests config - 1),
            windowResetAt = now + windowSeconds config * 1000\<rparr>"
    using w by (simp add: eq)
  have w0: "windowSeconds config \<noteq> 0" using w by simp
  have "memoryCache (snd (cacheSet c fs now key \<lparr>count = 1, resetAt = now + windowSeconds config * 1000\<rparr>
                            (windowOptions config) (gr_state ?G))) key
          = Some (\<lparr>count = 1, resetAt = now + windowSeconds config * 1000\<rparr>,
                  now + windowSeconds config * 1000)"
    using cacheSet_memory [of "windowOptions config" fs c now key
        "\<lparr>count = 1, resetAt = now + windowSeconds config * 1000\<rparr>" "gr_state ?G"] s
        windowTTL [OF w0]
    by simp
  then show "memoryCache (snd (snd (checkRateLimitCached c fg fs now key config st))) key =
           Some (\<lparr>count = 1, resetAt = now + windowSeconds config * 1000\<rparr>,
                 now + windowSeconds config * 1000)"
    using w by (simp add: eq)
qed


lemma checkMany_Cons:
  "checkMany c key config (x # rest) st =
     fst (checkRateLimitCached c (fst (snd x)) (snd (snd x)) (fst x) key config st)
     # checkMany c key config rest
         (snd (snd (checkRateLimitCached c (fst (snd x)) (snd (snd x)) (fst x) key config st)))"
  by (cases x) (simp add: split_beta Let_def)

lemma checkMany_in_window:
  assumes w: "windowSeconds config \<noteq> 0"
  shows "memoryCache st key = Some (\<lparr>count = n, resetAt = r\<rparr>, e) \<Longrightarrow> r \<le> e \<Longrightarrow>
         sorted (map fst cs) \<Longrightarrow>
         \<forall>x \<in> set cs. e - windowSeconds config * 1000 \<le> fst x \<and> fst x < r
              \<and> \<not> memoryGetThrows (fst (snd x)) \<and> memorySetThrows (snd (snd x)) = None \<Longrightarrow>
         checkMany c key config cs st =
           map (\<lambda>i. \<lparr>allowed = (n + int i + 1 \<le> maxRequests config),
                     remaining = max 0 (maxRequests config - (n + int i + 1)),
                     windowResetAt = r\<rparr>) [0 ..< length cs]"
proof (induction cs arbitrary: st n e)
  case Nil
  then show ?case by simp
next
  case (Cons x rest)
  let ?R = "checkRateLimitCached c (fst (snd x)) (snd (snd x)) (fst x) key config st"
  from Cons.prems(4) have x: "e - windowSeconds config * 1000 \<le> fst x" "fst x < r"
      "\<not> memoryGetThrows (fst (snd x))" "memorySetThrows (snd (snd x)) = None"
    by simp_all
  have vis: "fst x \<le> e" using x(2) Cons.prems(2) by simp
  have inw: "fst x < resetAt \<lparr>count = n, resetAt = r\<rparr>" using x(2) by simp
  note h = check_hit [OF Cons.prems(1) vis x(3) x(4) inw w, of c]
  have res: "fst ?R = \<lparr>allowed = (n + 1 \<le> maxRequests config),
                       remaining = max 0 (maxRequests config - (n + 1)),
                       windowResetAt = r\<rparr>"
    using h(1) by simp
  have mem': "memoryCache (snd (snd ?R)) key =
                Some (\<lparr>count = n + 1, resetAt = r\<rparr>, fst x + windowSeconds config * 1000)"
    using h(2) by simp
  have r': "r \<le> fst x + windowSeconds config * 1000"
    using x(1) Cons.prems(2) by simp
  have srt: "sorted (map fst rest)" using Cons.prems(3) by simp
  have rest: "\<forall>y \<in> set rest. fst x + windowSeconds config * 1000 - windowSeconds config * 1000 \<le> fst y
                \<and> fst y < r \<and> \<not> memoryGetThrows (fst (snd y)) \<and> memorySetThrows (snd (snd y)) = None"
    using Cons.prems(3,4) by auto
  have ih: "checkMany c key config rest (snd (snd ?R)) =
              map (\<lambda>i. \<lparr>allowed = (n + 1 + int i + 1 \<le> maxRequests config),
                        remaining = max 0 (maxRequests config - (n + 1 + int i + 1)),
                        windowResetAt = r\<rparr>) [0 ..< length rest]"
    by (rule Cons.IH [OF mem' r' srt rest])
  have shift: "map (\<lambda>i. \<lparr>allowed = (n + int i + 1 \<le> maxRequests config),
                     remaining = max 0 (maxRequests config - (n + int i + 1)),
                     windowResetAt = r\<rparr>) [0 ..< length (x # rest)]
        = \<lparr>allowed = (n + 1 \<le> maxRequests config),
           remaining = max 0 (maxRequests config - (n + 1)), windowResetAt = r\<rparr>
          # map (\<lambda>i. \<lparr>allowed = (n + 1 + int i + 1 \<le> maxRequests config),
                        remaining = max 0 (maxRequests config - (n + 1 + int i + 1)),
                        windowResetAt = r\<rparr>) [0 ..< length rest]"
    by (simp add: map_upt_Suc del: upt_Suc add: algebra_simps)
  show ?case
    by (simp only: checkMany_Cons res ih shift)
qed

lemma checkMany_fresh:
  assumes w: "0 < windowSeconds config"
    and ne: "cs \<noteq> []"
    and m: "nodeGet (fst (hd cs)) key (memoryCache st) = None"
    and r: "redisGet (fst (hd cs)) key (redis st) = None"
    and srt: "sorted (map fst cs)"
    and ok: "\<forall>x \<in> set cs. fst x < fst (hd cs) + windowSeconds config * 1000
               \<and> \<not> memoryGetThrows (fst (snd x)) \<and> memorySetThrows (snd (snd x)) = None"
  shows "checkMany c key config cs st =
           map (\<lambda>i. \<lparr>allowed = (int i + 1 \<le> maxRequests config),
                     remaining = max 0 (maxRequests config - (int i + 1)),
                     windowResetAt = fst (hd cs) + windowSeconds config * 1000\<rparr>) [0 ..< length cs]"
proof -
  obtain x rest where cs: "cs = x # rest" using ne by (cases cs) auto
  let ?R = "checkRateLimitCached c (fst (snd x)) (snd (snd x)) (fst x) key config st"
  let ?r = "fst x + windowSeconds config * 1000"
  have s: "memorySetThrows (snd (snd x)) = None" using ok cs by simp
  note f = check_fresh [OF _ _ s w, of "fst x" key st c "fst (snd x)"]
  have res: "fst ?R = \<lparr>allowed = (1 \<le> maxRequests config),
                       remaining = max 0 (maxRequests config - 1), windowResetAt = ?r\<rparr>"
    using f(1) m r cs by simp
  have mem': "memoryCache (snd (snd ?R)) key = Some (\<lparr>count = 1, resetAt = ?r\<rparr>, ?r)"
    using f(2) m r cs by simp
  have w0: "windowSeconds config \<noteq> 0" using w by simp
  have srt': "sorted (map fst rest)" using srt cs by simp
  have rest: "\<forall>y \<in> set rest. ?r - windowSeconds config * 1000 \<le> fst y \<and> fst y < ?r
                \<and> \<not> memoryGetThrows (fst (snd y)) \<and> memorySetThrows (snd (snd y)) = None"
    using srt ok cs by auto
  have tl: "checkMany c key config rest (snd (snd ?R)) =
              map (\<lambda>i. \<lparr>allowed = (1 + int i + 1 \<le> maxRequests config),
                        remaining = max 0 (maxRequests config - (1 + int i + 1)),
                        windowResetAt = ?r\<rparr>) [0 ..< length rest]"
    by (rule checkMany_in_window [OF w0 mem' _ srt' rest]) simp
  have shift: "map (\<lambda>i. \<lparr>allowed = (int i + 1 \<le> maxRequests config),
                     remaining = max 0 (maxRequests config - (int i + 1)),
                     windowResetAt = ?r\<rparr>) [0 ..< length (x # rest)]
        = \<lparr>allowed = (1 \<le> maxRequests config),
           remaining = max 0 (maxRequests config - 1), windowResetAt = ?r\<rparr>
          # map (\<lambda>i. \<lparr>allowed = (1 + int i + 1 \<le> maxRequests config),
                        remaining = max 0 (maxRequests config - (1 + int i + 1)),
                        windowResetAt = ?r\<rparr>) [0 ..< length rest]"
    by (simp add: map_upt_Suc del: upt_Suc add: algebra_simps)
  show ?thesis
    unfolding cs list.sel
    by (simp only: checkMany_Cons res tl shift)
qed


lemma check_counts:
  assumes "1 \<le> maxRequests config"
  shows "\<exists>cached. gr_value (checkGet c fg now key config st) = Inr cached
           \<and> checkRateLimitCached c fg fs now key config st =
               (\<lparr>allowed = (count (nextData now config cached) \<le> maxRequests config),
                 remaining = max 0 (maxRequests config - count (nextData now config cached)),
                 windowResetAt = resetAt (nextData now config cached)\<rparr>,
                gr_logs (checkGet c fg now key config st)
                @ fst (cacheSet c fs now key (nextData now config cached) (windowOptions config)
                         (gr_state (checkGet c fg now key config st))),
                snd (cacheSet c fs now key (nextData now config cached) (windowOptions config)
                         (gr_state (checkGet c fg now key config st))))
           \<and> (memorySetThrows fs = None \<and> windowSeconds config \<noteq> 0 \<longrightarrow>
                memoryCache (snd (snd (checkRateLimitCached c fg fs now key config st))) key =
                  Some (nextData now config cached, now + windowSeconds config * 1000))"
proof -
  obtain cached where v: "gr_value (checkGet c fg now key config st) = Inr cached"
    using serviceGet_Inr by blast
  note eq = checkRateLimitCached_eq [OF v, of fs]
  have res: "checkRateLimitCached c fg fs now key config st =
               (\<lparr>allowed = (count (nextData now config cached) \<le> maxRequests config),
                 remaining = max 0 (maxRequests config - count (nextData now config cached)),
                 windowResetAt = resetAt (nextData now config cached)\<rparr>,
                gr_logs (checkGet c fg now key config st)
                @ fst (cacheSet c fs now key (nextData now config cached) (windowOptions config)
                         (gr_state (checkGet c fg now key config st))),
                snd (cacheSet c fs now key (nextData now config cached) (windowOptions config)
                         (gr_state (checkGet c fg now key config st))))"
    using assms by (simp add: eq)
  have st: "memorySetThrows fs = None \<and> windowSeconds config \<noteq> 0 \<longrightarrow>
              memoryCache (snd (snd (checkRateLimitCached c fg fs now key config st))) key =
                Some (nextData now config cached, now + windowSeconds config * 1000)"
  proof
    assume h: "memorySetThrows fs = None \<and> windowSeconds config \<noteq> 0"
    have "memoryCache (snd (cacheSet c fs now key (nextData now config cached)
                              (windowOptions config) (gr_state (checkGet c fg now key config st)))) key
            = Some (nextData now config cached, now + windowSeconds config * 1000)"
      using cacheSet_memory [of "windowOptions config" fs c now key "nextData now config cached"
          "gr_state (checkGet c fg now key config st)"] h windowTTL [of config]
      by simp
    then show "memoryCache (snd (snd (checkRateLimitCached c fg fs now key config st))) key =
                Some (nextData now config cached, now + windowSeconds config * 1000)"
      by (simp only: res snd_conv)
  qed
  from v res st show ?thesis by blast
qed

lemma window_exhausted:
  fixes m :: int
  assumes "1 \<le> m"
    and R: "R = map (\<lambda>i. \<lparr>allowed = (int i + 1 \<le> m), remaining = max 0 (m - (int i + 1)),
                          windowResetAt = r\<rparr>) [0 ..< n]"
    and n: "n = nat m + 1"
  shows "(\<forall>x \<in> set (butlast R). allowed x)
         \<and> last R = \<lparr>allowed = False, remaining = 0, windowResetAt = r\<rparr>"
proof -
  have n': "n = Suc (nat m)" using n by simp
  have "last R = \<lparr>allowed = False, remaining = 0, windowResetAt = r\<rparr>"
    using assms(1) unfolding R n' by simp
  moreover have "butlast R = map (\<lambda>i. \<lparr>allowed = (int i + 1 \<le> m), remaining = max 0 (m - (int i + 1)),
                          windowResetAt = r\<rparr>) [0 ..< nat m]"
    unfolding R n' by simp
  then have "\<forall>x \<in> set (butlast R). allowed x"
    by auto
  ultimately show ?thesis by simp
qed


text \<open>
  Counting, for a limit of at least one request. A check on the tiered cache reads the
  stored record (or, when there is none, an empty counter for a window that starts now) and
  writes \<open>nextData\<close>: the counter incremented, or, when \<open>now \<ge> resetAt\<close> of the record
  read, the counter \<open>1\<close> with a new window of \<open>windowSeconds\<close>. With \<open>count\<close> the
  counter written, the check returns \<open>allowed = (count \<le> maxRequests)\<close>,
  \<open>remaining = max 0 (maxRequests - count)\<close> and the window's end; when the in-process
  tier works, the record written is what that tier then holds. Consequently, for checks in
  time order that start on a key with nothing stored and stay inside the first one's
  window, the \<open>i\<close>-th check is allowed exactly when \<open>i \<le> maxRequests\<close>, and with
  \<open>maxRequests + 1\<close> checks the last one returns \<open>allowed = false\<close>, \<open>remaining = 0\<close>.
  Inside a window (\<open>check_hit\<close>, \<open>checkMany_in_window\<close>) the two formulas hold for
  every limit.
\<close>

theorem fixed_window_counting:
  assumes "1 \<le> maxRequests config"
  shows "(\<exists>cached. gr_value (checkGet c fg now key config st) = Inr cached
           \<and> checkRateLimitCached c fg fs now key config st =
               (\<lparr>allowed = (count (nextData now config cached) \<le> maxRequests config),
                 remaining = max 0 (maxRequests config - count (nextData now config cached)),
                 windowResetAt = resetAt (nextData now config cached)\<rparr>,
                gr_logs (checkGet c fg now key config st)
                @ fst (cacheSet c fs now key (nextData now config cached) (windowOptions config)
                         (gr_state (checkGet c fg now key config st))),
                snd (cacheSet c fs now key (nextData now config cached) (windowOptions config)
                         (gr_state (checkGet c fg now key config st))))
           \<and> (memorySetThrows fs = None \<and> windowSeconds config \<noteq> 0 \<longrightarrow>
                memoryCache (snd (snd (checkRateLimitCached c fg fs now key config st))) key =
                  Some (nextData now config cached, now + windowSeconds config * 1000)))
       \<and> (0 < windowSeconds config \<and> cs \<noteq> []
            \<and> nodeGet (fst (hd cs)) key (memoryCache st) = None
            \<and> redisGet (fst (hd cs)) key (redis st) = None
            \<and> sorted (map fst cs)
            \<and> (\<forall>x \<in> set cs. fst x < fst (hd cs) + windowSeconds config * 1000
                   \<and> \<not> memoryGetThrows (fst (snd x)) \<and> memorySetThrows (snd (snd x)) = None) \<longrightarrow>
          checkMany c key config cs st =
            map (\<lambda>i. \<lparr>allowed = (int i + 1 \<le> maxRequests config),
                      remaining = max 0 (maxRequests config - (int i + 1)),
                      windowResetAt = fst (hd cs) + windowSeconds config * 1000\<rparr>)
              [0 ..< length cs]
          \<and> (length cs = nat (maxRequests config) + 1 \<longrightarrow>
               (\<forall>r \<in> set (butlast (checkMany c key config cs st)). allowed r)
               \<and> last (checkMany c key config cs st) =
                   \<lparr>allowed = False, remaining = 0,
                    windowResetAt = fst (hd cs) + windowSeconds config * 1000\<rparr>))"
proof (intro conjI impI)
  show "\<exists>cached. gr_value (checkGet c fg now key config st) = Inr cached
           \<and> checkRateLimitCached c fg fs now key config st =
               (\<lparr>allowed = (count (nextData now config cached) \<le> maxRequests config),
                 remaining = max 0 (maxRequests config - count (nextData now config cached)),
                 windowResetAt = resetAt (nextData now config cached)\<rparr>,
                gr_logs (checkGet c fg now key config st)
                @ fst (cacheSet c fs now key (nextData now config cached) (windowOptions config)
                         (gr_state (checkGet c fg now key config st))),
                snd (cacheSet c fs now key (nextData now config cached) (windowOptions config)
                         (gr_state (checkGet c fg now key config st))))
           \<and> (memorySetThrows fs = None \<and> windowSeconds config \<noteq> 0 \<longrightarrow>
                memoryCache (snd (snd (checkRateLimitCached c fg fs now key config st))) key =
                  Some (nextData now config cached, now + windowSeconds config * 1000))"
    by (rule check_counts [OF assms])
next
  assume h: "0 < windowSeconds config \<and> cs \<noteq> []
            \<and> nodeGet (fst (hd cs)) key (memoryCache st) = None
            \<and> redisGet (fst (hd cs)) key (redis st) = None
            \<and> sorted (map fst cs)
            \<and> (\<forall>x \<in> set cs. fst x < fst (hd cs) + windowSeconds config * 1000
                   \<and> \<not> memoryGetThrows (fst (snd x)) \<and> memorySetThrows (snd (snd x)) = None)"
  then have h': "0 < windowSeconds config" "cs \<noteq> []"
      "nodeGet (fst (hd cs)) key (memoryCache st) = None"
      "redisGet (fst (hd cs)) key (redis st) = None" "sorted (map fst cs)"
      "\<forall>x \<in> set cs. fst x < fst (hd cs) + windowSeconds config * 1000
          \<and> \<not> memoryGetThrows (fst (snd x)) \<and> memorySetThrows (snd (snd x)) = None"
    by blast+
  show seq: "checkMany c key config cs st =
            map (\<lambda>i. \<lparr>allowed = (int i + 1 \<le> maxRequests config),
                      remaining = max 0 (maxRequests config - (int i + 1)),
                      windowResetAt = fst (hd cs) + windowSeconds config * 1000\<rparr>)
              [0 ..< length cs]"
    by (rule checkMany_fresh [OF h'])
  assume n: "length cs = nat (maxRequests config) + 1"
  note ex = window_exhausted [OF assms seq n]
  show "\<forall>r \<in> set (butlast (checkMany c key config cs st)). allowed r"
    using ex by (rule conjunct1)
  show "last (checkMany c key config cs st) =
          \<lparr>allowed = False, remaining = 0,
           windowResetAt = fst (hd cs) + windowSeconds config * 1000\<rparr>"
    using ex by (rule conjunct2)
qed

theorem fixed_window_counting_witness:
  "1 \<le> maxRequests authRateLimit
   \<and> checkMany \<lparr>stringify = (\<lambda>d. Inr ''{}''), parse = (\<lambda>s. None)\<rparr> ''ratelimit:auth:10.0.0.1'' authRateLimit
       [(0, noFaults, noFaults), (1000, noFaults, noFaults), (2000, noFaults, noFaults), (3000, noFaults, noFaults), (4000, noFaults, noFaults), (5000, noFaults, noFaults)]
       \<lparr>memoryCache = Map.empty, redis = Map.empty, redisAvailable = False\<rparr>
     = [\<lparr>allowed = True, remaining = 4, windowResetAt = 900000\<rparr>,
        \<lparr>allowed = True, remaining = 3, windowResetAt = 900000\<rparr>,
        \<lparr>allowed = True, remaining = 2, windowResetAt = 900000\<rparr>,
        \<lparr>allowed = True, remaining = 1, windowResetAt = 900000\<rparr>,
        \<lparr>allowed = True, remaining = 0, windowResetAt = 900000\<rparr>,
        \<lparr>allowed = False, remaining = 0, windowResetAt = 900000\<rparr>]"
  using fixed_window_counting [where config = authRateLimit and c = "\<lparr>stringify = (\<lambda>d. Inr ''{}''), parse = (\<lambda>s. None)\<rparr>"
      and key = "''ratelimit:auth:10.0.0.1''" and st = "\<lparr>memoryCache = Map.empty, redis = Map.empty, redisAvailable = False\<rparr>"
      and cs = "[(0, noFaults, noFaults), (1000, noFaults, noFaults), (2000, noFaults, noFaults), (3000, noFaults, noFaults), (4000, noFaults, noFaults), (5000, noFaults, noFaults)]"]
  by (simp add: authRateLimit_def nodeGet_def redisGet_def noFaults_def)

text \<open>
  C2. The specification has \<open>allowed = (count \<le> maxRequests)\<close> and
  \<open>remaining = max 0 (maxRequests - count)\<close> for every check, \<open>count\<close> being the counter
  after the check. The branch that resets the window returns \<open>allowed: true\<close> and
  \<open>remaining: maxRequests - 1\<close> instead. With \<open>maxRequests = 0\<close> and a window of one
  second, a client's first two requests are refused, as they should be; its third, made
  after their window has ended, resets the counter to \<open>1\<close> and is answered
  \<open>allowed = true\<close>, \<open>remaining = -1\<close>.
\<close>

theorem zero_limit_allows_after_window_reset:
  "checkMany \<lparr>stringify = (\<lambda>d. Inr ''{}''), parse = (\<lambda>s. None)\<rparr> ''ratelimit:api:10.0.0.1''
       \<lparr>maxRequests = 0, windowSeconds = 1, configIdentifier = None, keyGenerator = None, message = None, skip = None\<rparr>
       [(0, noFaults, noFaults), (900, noFaults, noFaults), (1500, noFaults, noFaults)]
       \<lparr>memoryCache = Map.empty, redis = Map.empty, redisAvailable = False\<rparr>
     = [\<lparr>allowed = False, remaining = 0, windowResetAt = 1000\<rparr>,
        \<lparr>allowed = False, remaining = 0, windowResetAt = 1000\<rparr>,
        \<lparr>allowed = True, remaining = - 1, windowResetAt = 2500\<rparr>]"
  by (simp add: checkRateLimitCached_def checkRateLimit_def serviceGet_def serviceSet_def
        cacheGet_def cacheSet_def lookupMemory_def lookupRedis_def storeRedis_def
        storeMemory_def nodeGet_def nodeSet_def noFaults_def mergeOptions_def defaultOptions_def
        orDefault_def flag_def ttlOr_def Let_def)


end
